theory Spec2Isabelle
  imports Complex_Main "HOL-Library.Sublist"
begin

section \<open>Go library functions used by the handlers\<close>

text \<open>
  Go strings are byte sequences; they are modelled as \<open>string\<close> (a list of 8-bit
  characters). An \<open>error\<close> value is modelled by its message. The case mappings
  below act on the ASCII letters and leave every other byte unchanged (Go's
  \<open>strings.ToLower\<close> and \<open>strings.ToUpper\<close> also map letters outside ASCII).
\<close>

type_synonym go_error = string

definition to_lower_char :: "char \<Rightarrow> char" where
  "to_lower_char c =
     (case map_of (zip ''ABCDEFGHIJKLMNOPQRSTUVWXYZ'' ''abcdefghijklmnopqrstuvwxyz'') c of
        Some l \<Rightarrow> l | None \<Rightarrow> c)"

definition to_upper_char :: "char \<Rightarrow> char" where
  "to_upper_char c =
     (case map_of (zip ''abcdefghijklmnopqrstuvwxyz'' ''ABCDEFGHIJKLMNOPQRSTUVWXYZ'') c of
        Some u \<Rightarrow> u | None \<Rightarrow> c)"

definition ToLower :: "string \<Rightarrow> string" where
  "ToLower s = map to_lower_char s"

definition ToUpper :: "string \<Rightarrow> string" where
  "ToUpper s = map to_upper_char s"

text \<open>The ASCII white space of \<open>strings.TrimSpace\<close>: tab, line feed, vertical tab,
  form feed, carriage return and space.\<close>

definition is_space :: "char \<Rightarrow> bool" where
  "is_space c = (c \<in> set [CHR 0x09, CHR 0x0A, CHR 0x0B, CHR 0x0C, CHR 0x0D, CHR 0x20])"

definition TrimSpace :: "string \<Rightarrow> string" where
  "TrimSpace s = rev (dropWhile is_space (rev (dropWhile is_space s)))"

definition HasPrefix :: "string \<Rightarrow> string \<Rightarrow> bool" where
  "HasPrefix s p = prefix p s"

text \<open>\<open>strings.Replace(s, old, new, -1)\<close>: every non-overlapping occurrence of
  \<open>old\<close>, from the left. Every call in the source passes a one-character \<open>old\<close>;
  for an empty \<open>old\<close> (where Go inserts \<open>new\<close> between the characters) the model
  returns \<open>s\<close>.\<close>

function Replace :: "string \<Rightarrow> string \<Rightarrow> string \<Rightarrow> string" where
  "Replace [] old new = []"
| "Replace (c # s) old new =
     (if old \<noteq> [] \<and> prefix old (c # s)
      then new @ Replace (drop (length old) (c # s)) old new
      else c # Replace s old new)"
  by pat_completeness auto
termination
  by (relation "measure (\<lambda>(s, old, new). length s)") (auto simp: neq_Nil_conv)

declare Replace.simps(2) [simp del]

subsection \<open>Formatting\<close>

text \<open>
  \<open>fmt.Sprintf\<close> and \<open>fmt.Errorf\<close> on string and integer arguments, for formats whose
  verbs follow the percent sign directly (no flags, width or precision: the source
  uses none). The verbs handled as valid are the ones the source uses: \<open>%s\<close> and
  \<open>%v\<close> on a string (an error prints its message), \<open>%d\<close> and \<open>%v\<close> on an integer,
  and \<open>%w\<close> in \<open>Errorf\<close>. Another verb prints Go's bad-verb text
  \<open>%!verb(type=value)\<close>, a verb without an argument prints \<open>%!verb(MISSING)\<close>, and
  arguments left over are reported as \<open>%!(EXTRA ...)\<close>.
\<close>

datatype fmt_arg = AStr string | AInt int

definition digit_char :: "nat \<Rightarrow> char" where
  "digit_char d = ''0123456789'' ! d"

fun nat_digits :: "nat \<Rightarrow> string" where
  "nat_digits n =
     (if n < 10 then [digit_char n] else nat_digits (n div 10) @ [digit_char (n mod 10)])"

declare nat_digits.simps [simp del]

definition Itoa :: "int \<Rightarrow> string" where
  "Itoa i = (if i < 0 then CHR ''-'' # nat_digits (nat (- i)) else nat_digits (nat i))"

fun arg_type :: "fmt_arg \<Rightarrow> string" where
  "arg_type (AStr s) = ''string''"
| "arg_type (AInt i) = ''int''"

fun arg_default :: "fmt_arg \<Rightarrow> string" where
  "arg_default (AStr s) = s"
| "arg_default (AInt i) = Itoa i"

fun verb_ok :: "bool \<Rightarrow> char \<Rightarrow> fmt_arg \<Rightarrow> bool" where
  "verb_ok wrap c (AStr s) = (c = CHR ''s'' \<or> c = CHR ''v'' \<or> (wrap \<and> c = CHR ''w''))"
| "verb_ok wrap c (AInt i) = (c = CHR ''d'' \<or> c = CHR ''v'')"

definition fmt_verb :: "bool \<Rightarrow> char \<Rightarrow> fmt_arg \<Rightarrow> string" where
  "fmt_verb wrap c a =
     (if verb_ok wrap c a then arg_default a
      else ''%!'' @ [c] @ ''('' @ arg_type a @ ''='' @ arg_default a @ '')'')"

fun extra_args :: "fmt_arg list \<Rightarrow> string" where
  "extra_args [] = []"
| "extra_args [a] = arg_type a @ ''='' @ arg_default a"
| "extra_args (a # b # as) = arg_type a @ ''='' @ arg_default a @ '', '' @ extra_args (b # as)"

fun doPrintf :: "bool \<Rightarrow> string \<Rightarrow> fmt_arg list \<Rightarrow> string" where
  "doPrintf wrap [] [] = []"
| "doPrintf wrap [] (a # as) = ''%!(EXTRA '' @ extra_args (a # as) @ '')''"
| "doPrintf wrap (c # fs) as =
     (if c \<noteq> CHR ''%'' then c # doPrintf wrap fs as
      else (case fs of
              [] \<Rightarrow> ''%!(NOVERB)'' @ doPrintf wrap [] as
            | v # fs' \<Rightarrow>
                if v = CHR ''%'' then CHR ''%'' # doPrintf wrap fs' as
                else (case as of
                        [] \<Rightarrow> ''%!'' @ [v] @ ''(MISSING)'' @ doPrintf wrap fs' []
                      | a # as' \<Rightarrow> fmt_verb wrap v a @ doPrintf wrap fs' as')))"

definition Sprintf :: "string \<Rightarrow> fmt_arg list \<Rightarrow> string" where
  "Sprintf = doPrintf False"

definition Errorf :: "string \<Rightarrow> fmt_arg list \<Rightarrow> go_error" where
  "Errorf = doPrintf True"

section \<open>The connection registry (pkg/dbtools/config.go)\<close>

record DatabaseConnectionConfig =
  ID :: string
  Type :: string
  Host :: string
  Port :: int
  User :: string
  Password :: string
  Name :: string
  Description :: string

text \<open>The package variable \<open>configs\<close> is a map from connection ID to configuration;
  both functions take it as explicit state. The read-write mutex that guards it
  is not modelled: each function is one atomic step on the map.\<close>

type_synonym configs = "string \<rightharpoonup> DatabaseConnectionConfig"

definition RegisterDatabaseConfig :: "DatabaseConnectionConfig \<Rightarrow> configs \<Rightarrow> configs" where
  "RegisterDatabaseConfig config configs = configs(ID config \<mapsto> config)"

definition GetDatabaseConfig :: "configs \<Rightarrow> string \<Rightarrow> go_error + DatabaseConnectionConfig" where
  "GetDatabaseConfig configs ident =
     (case configs ident of
        None \<Rightarrow> Inl (Errorf ''database configuration not found for ID: %s'' [AStr ident])
      | Some config \<Rightarrow> Inr config)"

section \<open>Requests, responses and the use-case collaborator\<close>

text \<open>
  \<open>request.Parameters\<close> is a \<open>map[string]interface{}\<close> decoded from JSON. A value is
  nil, a string, a \<open>float64\<close> number, a boolean, an array or an object. A \<open>float64\<close>
  is modelled by the real number it stands for.
\<close>

datatype pvalue =
    PNil
  | PString string
  | PNumber real
  | PBool bool
  | PArray "pvalue list"
  | PObject "(string \<times> pvalue) list"

record ToolCallRequest =
  Parameters :: "string \<rightharpoonup> pvalue"

text \<open>Indexing a Go map with a missing key gives the zero value, here nil.\<close>

definition param :: "ToolCallRequest \<Rightarrow> string \<Rightarrow> pvalue" where
  "param request k = (case Parameters request k of None \<Rightarrow> PNil | Some v \<Rightarrow> v)"

text \<open>The type assertions \<open>v.(string)\<close>, \<open>v.(bool)\<close>, \<open>v.(float64)\<close> and
  \<open>v.([]interface{})\<close> with their \<open>ok\<close> result.\<close>

fun as_string :: "pvalue \<Rightarrow> string option" where
  "as_string (PString s) = Some s"
| "as_string v = None"

fun as_bool :: "pvalue \<Rightarrow> bool option" where
  "as_bool (PBool b) = Some b"
| "as_bool v = None"

fun as_float64 :: "pvalue \<Rightarrow> real option" where
  "as_float64 (PNumber x) = Some x"
| "as_float64 v = None"

fun as_array :: "pvalue \<Rightarrow> pvalue list option" where
  "as_array (PArray vs) = Some vs"
| "as_array v = None"

text \<open>The conversion \<open>int(f)\<close> of a \<open>float64\<close> truncates towards zero (for a value in
  the range of \<open>int\<close>).\<close>

definition go_int :: "real \<Rightarrow> int" where
  "go_int f = (if 0 \<le> f then \<lfloor>f\<rfloor> else \<lceil>f\<rceil>)"

text \<open>
  The pattern every handler uses for an optional parameter:
  \<^verbatim>\<open>x := d; if request.Parameters[k] != nil { if p, ok := request.Parameters[k].(T); ok { x = p } }\<close>
\<close>

definition optional_string :: "ToolCallRequest \<Rightarrow> string \<Rightarrow> string \<Rightarrow> string" where
  "optional_string request k d =
     (if param request k \<noteq> PNil
      then (case as_string (param request k) of Some p \<Rightarrow> p | None \<Rightarrow> d)
      else d)"

definition optional_bool :: "ToolCallRequest \<Rightarrow> string \<Rightarrow> bool \<Rightarrow> bool" where
  "optional_bool request k d =
     (if param request k \<noteq> PNil
      then (case as_bool (param request k) of Some p \<Rightarrow> p | None \<Rightarrow> d)
      else d)"

definition optional_int :: "ToolCallRequest \<Rightarrow> string \<Rightarrow> int \<Rightarrow> int" where
  "optional_int request k d =
     (if param request k \<noteq> PNil
      then (case as_float64 (param request k) of Some p \<Rightarrow> go_int p | None \<Rightarrow> d)
      else d)"

text \<open>Modelled from the spec: \<open>createTextResponse\<close> is not among the source files; the
  spec says that a response is a single text block.\<close>

datatype tool_response = TextResponse string

definition createTextResponse :: "string \<Rightarrow> tool_response" where
  "createTextResponse text = TextResponse text"

text \<open>
  The \<open>UseCaseProvider\<close> interface is declared outside the source files; the handlers
  take it as a parameter. \<open>GetDatabaseType\<close> returns the dialect of a connection or
  an error. \<open>ExecuteQuery\<close> and \<open>ExecuteStatement\<close> act on the outside world: they
  take the state \<open>'w\<close> of the world and return the new one with their result, so the
  outcome of a statement may depend on the statements executed before it.
\<close>

record 'w UseCaseProvider =
  GetDatabaseType :: "string \<Rightarrow> go_error + string"
  ExecuteQuery :: "'w \<Rightarrow> string \<Rightarrow> string \<Rightarrow> pvalue list \<Rightarrow> (go_error + string) \<times> 'w"
  ExecuteStatement :: "'w \<Rightarrow> string \<Rightarrow> string \<Rightarrow> pvalue list \<Rightarrow> (go_error + string) \<times> 'w"

text \<open>Every call of an executor is recorded, in order, beside the state of the world:
  a handler runs on a pair of the world and the calls made so far.\<close>

datatype exec_call =
    QueryCall string string "pvalue list"
  | StatementCall string string "pvalue list"

type_synonym 'w exec_state = "'w \<times> exec_call list"

definition exec_query ::
  "'w UseCaseProvider \<Rightarrow> string \<Rightarrow> string \<Rightarrow> pvalue list \<Rightarrow> 'w exec_state
     \<Rightarrow> (go_error + string) \<times> 'w exec_state" where
  "exec_query useCase dbID query params st =
     (case ExecuteQuery useCase (fst st) dbID query params of
        (r, w') \<Rightarrow> (r, (w', snd st @ [QueryCall dbID query params])))"

definition exec_statement ::
  "'w UseCaseProvider \<Rightarrow> string \<Rightarrow> string \<Rightarrow> pvalue list \<Rightarrow> 'w exec_state
     \<Rightarrow> (go_error + string) \<times> 'w exec_state" where
  "exec_statement useCase dbID statement params st =
     (case ExecuteStatement useCase (fst st) dbID statement params of
        (r, w') \<Rightarrow> (r, (w', snd st @ [StatementCall dbID statement params])))"

type_synonym 'w handler =
  "'w UseCaseProvider \<Rightarrow> ToolCallRequest \<Rightarrow> 'w exec_state
     \<Rightarrow> (go_error + tool_response) \<times> 'w exec_state"

subsection \<open>Example collaborators and requests\<close>

text \<open>A collaborator over a world that counts the executed statements: every
  connection has the dialect \<open>dbType\<close>, and the statement executed when the count is
  \<open>k\<close> fails.\<close>

definition demo_useCase :: "string \<Rightarrow> nat \<Rightarrow> nat UseCaseProvider" where
  "demo_useCase dbType k =
     \<lparr>GetDatabaseType = (\<lambda>dbID. Inr dbType),
      ExecuteQuery = (\<lambda>w dbID query params.
         (if w = k then Inl ''connection lost'' else Inr (''rows of '' @ Itoa (int w)), Suc w)),
      ExecuteStatement = (\<lambda>w dbID statement params.
         (if w = k then Inl ''connection lost'' else Inr (''done '' @ Itoa (int w)), Suc w))\<rparr>"

definition request_of :: "(string \<times> pvalue) list \<Rightarrow> ToolCallRequest" where
  "request_of ps = \<lparr>Parameters = map_of ps\<rparr>"

section \<open>The query builders\<close>

text \<open>
  Each builder is the source function of the same name, statement by statement:
  \<open>baseQuery\<close> and \<open>query\<close> are rebound where the source reassigns them. The SQL
  text is the text of the source's string literals, byte for byte (the raw literals
  of the statistics builders are indented with tabs).
\<close>

subsection \<open>Sample data and unique values\<close>

definition buildSampleDataQuery ::
  "string \<Rightarrow> string \<Rightarrow> int \<Rightarrow> string \<Rightarrow> string \<Rightarrow> bool \<Rightarrow> string" where
  \<open>buildSampleDataQuery dbType tableName limit whereClause orderByClause random =
     (let safeTableName =
            (if ToLower dbType = ''postgres''
             then Sprintf ''"%s"'' [AStr (Replace tableName ''"'' ''""'')]
             else Sprintf ''`%s`'' [AStr (Replace tableName ''`'' ''``'')]);
          query = Sprintf ''SELECT * FROM %s'' [AStr safeTableName];
          query = (if whereClause \<noteq> ''''
                   then query @ Sprintf '' WHERE %s'' [AStr whereClause] else query);
          query = (if random
                   then (if ToLower dbType = ''postgres''
                         then query @ '' ORDER BY RANDOM()''
                         else query @ '' ORDER BY RAND()'')
                   else if orderByClause \<noteq> ''''
                   then query @ Sprintf '' ORDER BY %s'' [AStr orderByClause]
                   else query);
          query = query @ Sprintf '' LIMIT %d'' [AInt limit]
      in query)\<close>

definition buildUniqueValuesQuery ::
  "string \<Rightarrow> string \<Rightarrow> string \<Rightarrow> int \<Rightarrow> string \<Rightarrow> bool \<Rightarrow> bool \<Rightarrow> string" where
  \<open>buildUniqueValuesQuery dbType tableName columnName limit whereClause includeCounts includeNulls =
     (let (safeTableName, safeColumnName) =
            (if ToLower dbType = ''postgres''
             then (Sprintf ''"%s"'' [AStr (Replace tableName ''"'' ''""'')],
                   Sprintf ''"%s"'' [AStr (Replace columnName ''"'' ''""'')])
             else (Sprintf ''`%s`'' [AStr (Replace tableName ''`'' ''``'')],
                   Sprintf ''`%s`'' [AStr (Replace columnName ''`'' ''``'')]));
          query =
            (if includeCounts
             then Sprintf ''SELECT %s, COUNT(*) AS count, ROUND(COUNT(*) * 100.0 / (SELECT COUNT(*) FROM %s), 2) AS percentage FROM %s''
                    [AStr safeColumnName, AStr safeTableName, AStr safeTableName]
             else Sprintf ''SELECT DISTINCT %s FROM %s'' [AStr safeColumnName, AStr safeTableName]);
          query = (if whereClause \<noteq> ''''
                   then query @ Sprintf '' WHERE %s'' [AStr whereClause] else query);
          query = (if \<not> includeNulls
                   then (if whereClause = ''''
                         then query @ Sprintf '' WHERE %s IS NOT NULL'' [AStr safeColumnName]
                         else query @ Sprintf '' AND %s IS NOT NULL'' [AStr safeColumnName])
                   else query);
          query = (if includeCounts
                   then query @ Sprintf '' GROUP BY %s ORDER BY COUNT(*) DESC'' [AStr safeColumnName]
                   else query @ Sprintf '' ORDER BY %s'' [AStr safeColumnName]);
          query = query @ Sprintf '' LIMIT %d'' [AInt limit]
      in query)\<close>

subsection \<open>Indexes\<close>

definition getPostgresIndexesQuery :: "string \<Rightarrow> bool \<Rightarrow> string" where
  \<open>getPostgresIndexesQuery tableName detailed =
     (let baseQuery =
            ''\<newline>'' @
            ''SELECT \<newline>'' @
            ''    t.relname AS table_name,\<newline>'' @
            ''    i.relname AS index_name,\<newline>'' @
            ''    a.amname AS index_type,\<newline>'' @
            ''    CASE \<newline>'' @
            ''        WHEN ix.indisprimary THEN \'PRIMARY KEY\'\<newline>'' @
            ''        WHEN ix.indisunique THEN \'UNIQUE\'\<newline>'' @
            ''        ELSE \'INDEX\'\<newline>'' @
            ''    END AS constraint_type,\<newline>'' @
            ''    array_to_string(array_agg(pg_get_indexdef(ix.indexrelid, k + 1, true)), \', \') AS column_names'';
          baseQuery =
            (if detailed
             then baseQuery @
               '',\<newline>'' @
               ''    pg_size_pretty(pg_relation_size(i.oid)) AS index_size,\<newline>'' @
               ''    pg_get_indexdef(ix.indexrelid) AS index_definition,\<newline>'' @
               ''    CASE WHEN ix.indpred IS NOT NULL THEN \'Yes\' ELSE \'No\' END AS is_partial,\<newline>'' @
               ''    CASE WHEN a.amname = \'btree\' AND ix.indoption[0] & 1 = 1 THEN \'DESC\' ELSE \'ASC\' END AS sort_order''
             else baseQuery);
          baseQuery = baseQuery @
            ''\<newline>'' @
            ''FROM pg_index ix\<newline>'' @
            ''JOIN pg_class i ON i.oid = ix.indexrelid\<newline>'' @
            ''JOIN pg_class t ON t.oid = ix.indrelid\<newline>'' @
            ''JOIN pg_namespace n ON n.oid = t.relnamespace\<newline>'' @
            ''JOIN pg_am a ON a.oid = i.relam,\<newline>'' @
            ''generate_series(0, array_length(ix.indkey, 1) - 1) AS k\<newline>'' @
            ''WHERE n.nspname = \'public'' @ [CHR 0x27];
          baseQuery =
            (if tableName \<noteq> ''''
             then (let safeTableName = Replace tableName [CHR 0x27] [CHR 0x27, CHR 0x27] in
                   baseQuery @ Sprintf ('' AND t.relname = \'%s'' @ [CHR 0x27]) [AStr safeTableName])
             else baseQuery);
          baseQuery = baseQuery @
            ''\<newline>'' @
            ''GROUP BY t.relname, i.relname, a.amname, ix.indisprimary, ix.indisunique'';
          baseQuery =
            (if detailed
             then baseQuery @
               '', i.oid, ix.indexrelid, ix.indpred, a.amname, ix.indoption''
             else baseQuery);
          baseQuery = baseQuery @
            ''\<newline>'' @
            ''ORDER BY t.relname, i.relname;''
      in baseQuery)\<close>

definition getMySQLIndexesQuery :: "string \<Rightarrow> bool \<Rightarrow> string" where
  \<open>getMySQLIndexesQuery tableName detailed =
     (let baseQuery =
            ''\<newline>'' @
            ''SELECT \<newline>'' @
            ''    table_name,\<newline>'' @
            ''    index_name,\<newline>'' @
            ''    GROUP_CONCAT(column_name ORDER BY seq_in_index) AS column_names,\<newline>'' @
            ''    CASE \<newline>'' @
            ''        WHEN index_name = \'PRIMARY\' THEN \'PRIMARY KEY\'\<newline>'' @
            ''        WHEN non_unique = 0 THEN \'UNIQUE\'\<newline>'' @
            ''        ELSE \'INDEX\'\<newline>'' @
            ''    END AS constraint_type,\<newline>'' @
            ''    index_type'';
          baseQuery =
            (if detailed
             then baseQuery @
               '',\<newline>'' @
               ''    CASE WHEN index_name = \'PRIMARY\' THEN \'YES\' ELSE \'NO\' END AS is_primary,\<newline>'' @
               ''    CASE WHEN non_unique = 0 THEN \'YES\' ELSE \'NO\' END AS is_unique,\<newline>'' @
               ''    CASE WHEN index_type = \'FULLTEXT\' THEN \'YES\' ELSE \'NO\' END AS is_fulltext,\<newline>'' @
               ''    CASE WHEN index_comment != '' @ [CHR 0x27] @ ''\' THEN index_comment ELSE NULL END AS comment''
             else baseQuery);
          baseQuery = baseQuery @
            ''\<newline>'' @
            ''FROM information_schema.statistics\<newline>'' @
            ''WHERE table_schema = DATABASE()'';
          baseQuery =
            (if tableName \<noteq> ''''
             then (let safeTableName = Replace tableName ''`'' ''``'' in
                   baseQuery @ Sprintf ('' AND table_name = \'%s'' @ [CHR 0x27]) [AStr safeTableName])
             else baseQuery);
          baseQuery = baseQuery @
            ''\<newline>'' @
            ''GROUP BY table_name, index_name, non_unique, index_type'';
          baseQuery =
            (if detailed
             then baseQuery @
               '', index_comment''
             else baseQuery);
          baseQuery = baseQuery @
            ''\<newline>'' @
            ''ORDER BY table_name, index_name;''
      in baseQuery)\<close>

subsection \<open>Constraints\<close>

definition getPostgresConstraintsQuery :: "string \<Rightarrow> string \<Rightarrow> string" where
  \<open>getPostgresConstraintsQuery tableName constraintType =
     (let baseQuery =
            ''\<newline>'' @
            ''SELECT \<newline>'' @
            ''    tc.table_schema,\<newline>'' @
            ''    tc.table_name,\<newline>'' @
            ''    tc.constraint_name,\<newline>'' @
            ''    tc.constraint_type,\<newline>'' @
            ''    CASE \<newline>'' @
            ''        WHEN tc.constraint_type = \'FOREIGN KEY\' THEN ccu.table_name\<newline>'' @
            ''        ELSE NULL\<newline>'' @
            ''    END AS referenced_table,\<newline>'' @
            ''    CASE \<newline>'' @
            ''        WHEN tc.constraint_type = \'FOREIGN KEY\' THEN \<newline>'' @
            ''            string_agg(kcu.column_name, \', \' ORDER BY kcu.ordinal_position)\<newline>'' @
            ''        ELSE \<newline>'' @
            ''            string_agg(kcu.column_name, \', \' ORDER BY kcu.ordinal_position)\<newline>'' @
            ''    END AS column_names,\<newline>'' @
            ''    CASE \<newline>'' @
            ''        WHEN tc.constraint_type = \'FOREIGN KEY\' THEN \<newline>'' @
            ''            string_agg(ccu.column_name, \', \' ORDER BY kcu.ordinal_position)\<newline>'' @
            ''        ELSE NULL\<newline>'' @
            ''    END AS referenced_columns,\<newline>'' @
            ''    CASE \<newline>'' @
            ''        WHEN tc.constraint_type = \'CHECK\' THEN pgc.consrc\<newline>'' @
            ''        ELSE NULL\<newline>'' @
            ''    END AS check_definition\<newline>'' @
            ''FROM information_schema.table_constraints tc\<newline>'' @
            ''JOIN information_schema.key_column_usage kcu\<newline>'' @
            ''    ON tc.constraint_name = kcu.constraint_name\<newline>'' @
            ''    AND tc.table_schema = kcu.table_schema\<newline>'' @
            ''LEFT JOIN information_schema.constraint_column_usage ccu\<newline>'' @
            ''    ON ccu.constraint_name = tc.constraint_name\<newline>'' @
            ''    AND ccu.table_schema = tc.table_schema\<newline>'' @
            ''LEFT JOIN pg_constraint pgc\<newline>'' @
            ''    ON pgc.conname = tc.constraint_name\<newline>'' @
            ''LEFT JOIN pg_namespace nsp\<newline>'' @
            ''    ON nsp.nspname = tc.table_schema\<newline>'' @
            ''    AND pgc.connamespace = nsp.oid\<newline>'' @
            ''WHERE tc.table_schema = \'public'' @ [CHR 0x27];
          baseQuery =
            (if tableName \<noteq> ''''
             then (let safeTableName = Replace tableName [CHR 0x27] [CHR 0x27, CHR 0x27] in
                   baseQuery @ Sprintf ('' AND tc.table_name = \'%s'' @ [CHR 0x27]) [AStr safeTableName])
             else baseQuery);
          baseQuery =
            (if constraintType \<noteq> ''''
             then (let safeConstraintType = Replace constraintType [CHR 0x27] [CHR 0x27, CHR 0x27] in
                   baseQuery @ Sprintf ('' AND tc.constraint_type = \'%s'' @ [CHR 0x27]) [AStr safeConstraintType])
             else baseQuery);
          baseQuery = baseQuery @
            ''\<newline>'' @
            ''GROUP BY tc.table_schema, tc.table_name, tc.constraint_name, tc.constraint_type, \<newline>'' @
            ''    CASE WHEN tc.constraint_type = \'FOREIGN KEY\' THEN ccu.table_name ELSE NULL END,\<newline>'' @
            ''    CASE WHEN tc.constraint_type = \'CHECK\' THEN pgc.consrc ELSE NULL END\<newline>'' @
            ''ORDER BY tc.table_name, tc.constraint_name;''
      in baseQuery)\<close>

definition getMySQLConstraintsQuery :: "string \<Rightarrow> string \<Rightarrow> string" where
  \<open>getMySQLConstraintsQuery tableName constraintType =
     (let baseQuery =
            ''\<newline>'' @
            ''SELECT \<newline>'' @
            ''    tc.table_schema,\<newline>'' @
            ''    tc.table_name,\<newline>'' @
            ''    tc.constraint_name,\<newline>'' @
            ''    CASE \<newline>'' @
            ''        WHEN tc.constraint_type = \'PRIMARY KEY\' THEN \'PRIMARY KEY\'\<newline>'' @
            ''        WHEN tc.constraint_type = \'UNIQUE\' THEN \'UNIQUE\'\<newline>'' @
            ''        WHEN tc.constraint_type = \'FOREIGN KEY\' THEN \'FOREIGN KEY\'\<newline>'' @
            ''        ELSE tc.constraint_type\<newline>'' @
            ''    END AS constraint_type,\<newline>'' @
            ''    GROUP_CONCAT(kcu.column_name ORDER BY kcu.ordinal_position) AS column_names,\<newline>'' @
            ''    kcu.referenced_table_name AS referenced_table,\<newline>'' @
            ''    GROUP_CONCAT(kcu.referenced_column_name ORDER BY kcu.ordinal_position) AS referenced_columns\<newline>'' @
            ''FROM information_schema.table_constraints tc\<newline>'' @
            ''JOIN information_schema.key_column_usage kcu\<newline>'' @
            ''    ON tc.constraint_name = kcu.constraint_name\<newline>'' @
            ''    AND tc.table_schema = kcu.table_schema\<newline>'' @
            ''    AND tc.table_name = kcu.table_name\<newline>'' @
            ''WHERE tc.table_schema = DATABASE()'';
          baseQuery =
            (if tableName \<noteq> ''''
             then (let safeTableName = Replace tableName ''`'' ''``'' in
                   baseQuery @ Sprintf ('' AND tc.table_name = \'%s'' @ [CHR 0x27]) [AStr safeTableName])
             else baseQuery);
          baseQuery =
            (if constraintType \<noteq> ''''
             then (let mysqlConstraintType =
                         (if ToUpper constraintType = ''PRIMARY KEY'' then ''PRIMARY KEY''
                          else if ToUpper constraintType = ''FOREIGN KEY'' then ''FOREIGN KEY''
                          else if ToUpper constraintType = ''UNIQUE'' then ''UNIQUE''
                          else constraintType);
                       safeConstraintType = Replace mysqlConstraintType [CHR 0x27] [CHR 0x27, CHR 0x27] in
                   baseQuery @ Sprintf ('' AND tc.constraint_type = \'%s'' @ [CHR 0x27]) [AStr safeConstraintType])
             else baseQuery);
          baseQuery = baseQuery @
            ''\<newline>'' @
            ''GROUP BY tc.table_schema, tc.table_name, tc.constraint_name, tc.constraint_type, kcu.referenced_table_name\<newline>'' @
            ''ORDER BY tc.table_name, tc.constraint_name;''
      in baseQuery)\<close>

subsection \<open>Views\<close>

definition getPostgresViewsQuery :: "string \<Rightarrow> bool \<Rightarrow> string" where
  \<open>getPostgresViewsQuery viewName includeDefinition =
     (let baseQuery =
            ''\<newline>'' @
            ''SELECT \<newline>'' @
            ''    schemaname AS schema_name,\<newline>'' @
            ''    viewname AS view_name,\<newline>'' @
            ''    definition AS view_definition\<newline>'' @
            ''FROM pg_catalog.pg_views\<newline>'' @
            ''WHERE schemaname NOT IN (\'pg_catalog\', \'information_schema\')'';
          baseQuery =
            (if viewName \<noteq> ''''
             then (let safeViewName = Replace viewName [CHR 0x27] [CHR 0x27, CHR 0x27] in
                   baseQuery @ Sprintf ('' AND viewname = \'%s'' @ [CHR 0x27]) [AStr safeViewName])
             else baseQuery);
          baseQuery = baseQuery @
            ''\<newline>'' @
            ''ORDER BY schemaname, viewname;'';
          baseQuery =
            (if \<not> includeDefinition
             then (let baseQuery =
                         ''\<newline>'' @
                         ''SELECT \<newline>'' @
                         ''    schemaname AS schema_name,\<newline>'' @
                         ''    viewname AS view_name,\<newline>'' @
                         ''    \'Definition not included\' AS view_definition\<newline>'' @
                         ''FROM pg_catalog.pg_views\<newline>'' @
                         ''WHERE schemaname NOT IN (\'pg_catalog\', \'information_schema\')'';
                       baseQuery =
                         (if viewName \<noteq> ''''
                          then (let safeViewName = Replace viewName [CHR 0x27] [CHR 0x27, CHR 0x27] in
                                baseQuery @ Sprintf ('' AND viewname = \'%s'' @ [CHR 0x27]) [AStr safeViewName])
                          else baseQuery);
                       baseQuery = baseQuery @
                         ''\<newline>'' @
                         ''ORDER BY schemaname, viewname;''
                   in baseQuery)
             else baseQuery)
      in baseQuery)\<close>

definition getMySQLViewsQuery :: "string \<Rightarrow> bool \<Rightarrow> string" where
  \<open>getMySQLViewsQuery viewName includeDefinition =
     (let baseQuery =
            ''\<newline>'' @
            ''SELECT \<newline>'' @
            ''    table_schema AS schema_name,\<newline>'' @
            ''    table_name AS view_name'';
          baseQuery =
            (if includeDefinition
             then baseQuery @
               '',\<newline>'' @
               ''    view_definition''
             else baseQuery @
               '',\<newline>'' @
               ''    \'Definition not included\' AS view_definition'');
          baseQuery = baseQuery @
            ''\<newline>'' @
            ''FROM information_schema.views\<newline>'' @
            ''WHERE table_schema = DATABASE()'';
          baseQuery =
            (if viewName \<noteq> ''''
             then (let safeViewName = Replace viewName ''`'' ''``'' in
                   baseQuery @ Sprintf ('' AND table_name = \'%s'' @ [CHR 0x27]) [AStr safeViewName])
             else baseQuery);
          baseQuery = baseQuery @
            ''\<newline>'' @
            ''ORDER BY table_schema, table_name;''
      in baseQuery)\<close>

subsection \<open>Types\<close>

definition getPostgresTypesQuery :: "string \<Rightarrow> string" where
  \<open>getPostgresTypesQuery typeName =
     (let baseQuery =
            ''\<newline>'' @
            ''SELECT \<newline>'' @
            ''    n.nspname AS schema_name,\<newline>'' @
            ''    t.typname AS type_name,\<newline>'' @
            ''    CASE \<newline>'' @
            ''        WHEN t.typtype = \'e\' THEN \'ENUM\'\<newline>'' @
            ''        WHEN t.typtype = \'c\' THEN \'COMPOSITE\'\<newline>'' @
            ''        WHEN t.typtype = \'d\' THEN \'DOMAIN\'\<newline>'' @
            ''        WHEN t.typtype = \'r\' THEN \'RANGE\'\<newline>'' @
            ''        WHEN t.typtype = \'b\' THEN \'BASE\'\<newline>'' @
            ''        ELSE t.typtype::text\<newline>'' @
            ''    END AS type_category,\<newline>'' @
            ''    CASE\<newline>'' @
            ''        WHEN t.typtype = \'e\' THEN \<newline>'' @
            ''            (SELECT string_agg(quote_literal(enumlabel), \', \' ORDER BY enumsortorder)\<newline>'' @
            ''             FROM pg_enum\<newline>'' @
            ''             WHERE enumtypid = t.oid)\<newline>'' @
            ''        WHEN t.typtype = \'c\' THEN \<newline>'' @
            ''            (SELECT string_agg(attname || \' \' || format_type(atttypid, atttypmod), \', \' ORDER BY attnum)\<newline>'' @
            ''             FROM pg_attribute\<newline>'' @
            ''             WHERE attrelid = t.typrelid AND attnum > 0 AND NOT attisdropped)\<newline>'' @
            ''        WHEN t.typtype = \'d\' THEN \<newline>'' @
            ''            format_type(t.typbasetype, t.typtypmod) || \<newline>'' @
            ''            CASE WHEN t.typnotnull THEN \' NOT NULL\' ELSE '' @ [CHR 0x27] @ ''\' END ||\<newline>'' @
            ''            CASE WHEN t.typdefault IS NOT NULL THEN \' DEFAULT \' || t.typdefault ELSE '' @ [CHR 0x27] @ ''\' END\<newline>'' @
            ''        WHEN t.typtype = \'r\' THEN \<newline>'' @
            ''            (SELECT format_type(rngsubtype, NULL) FROM pg_range WHERE rngtypid = t.oid)\<newline>'' @
            ''        ELSE format_type(t.oid, NULL)\<newline>'' @
            ''    END AS type_definition,\<newline>'' @
            ''    pg_catalog.obj_description(t.oid, \'pg_type\') AS description\<newline>'' @
            ''FROM pg_type t\<newline>'' @
            ''JOIN pg_namespace n ON t.typnamespace = n.oid\<newline>'' @
            ''WHERE (t.typtype IN (\'e\', \'c\', \'d\', \'r\') OR (t.typtype = \'b\' AND t.typname NOT LIKE '' @ [CHR 0x27] @ [CHR 0x5C] @ [CHR 0x5C] @ ''_%\'))\<newline>'' @
            ''AND n.nspname NOT IN (\'pg_catalog\', \'information_schema\')'';
          baseQuery =
            (if typeName \<noteq> ''''
             then (let safeTypeName = Replace typeName [CHR 0x27] [CHR 0x27, CHR 0x27] in
                   baseQuery @ Sprintf ('' AND t.typname = \'%s'' @ [CHR 0x27]) [AStr safeTypeName])
             else baseQuery);
          baseQuery = baseQuery @
            ''\<newline>'' @
            ''ORDER BY n.nspname, t.typname;''
      in baseQuery)\<close>

subsection \<open>Schemas\<close>

definition getPostgresSchemasQuery :: "string \<Rightarrow> bool \<Rightarrow> string" where
  \<open>getPostgresSchemasQuery schemaName includeSystemSchemas =
     (let baseQuery =
            ''\<newline>'' @
            ''SELECT \<newline>'' @
            ''    n.nspname AS schema_name,\<newline>'' @
            ''    pg_catalog.pg_get_userbyid(n.nspowner) AS owner,\<newline>'' @
            ''    pg_catalog.array_to_string(n.nspacl, E'' @ [CHR 0x27] @ [CHR 0x5C] @ ''n\') AS access_privileges,\<newline>'' @
            ''    pg_catalog.obj_description(n.oid, \'pg_namespace\') AS description,\<newline>'' @
            ''    (SELECT COUNT(*) FROM pg_catalog.pg_class c WHERE c.relnamespace = n.oid AND c.relkind = \'r\') AS tables_count,\<newline>'' @
            ''    (SELECT COUNT(*) FROM pg_catalog.pg_class c WHERE c.relnamespace = n.oid AND c.relkind = \'v\') AS views_count,\<newline>'' @
            ''    (SELECT COUNT(*) FROM pg_catalog.pg_proc p WHERE p.pronamespace = n.oid) AS functions_count\<newline>'' @
            ''FROM pg_catalog.pg_namespace n'';
          baseQuery =
            (if \<not> includeSystemSchemas
             then baseQuery @
               ''\<newline>'' @
               ''WHERE n.nspname NOT IN (\'pg_catalog\', \'information_schema\', \'pg_toast\', \'pg_temp_1\', \'pg_toast_temp_1\')''
             else baseQuery);
          baseQuery =
            (if schemaName \<noteq> ''''
             then (let safeSchemaName = Replace schemaName [CHR 0x27] [CHR 0x27, CHR 0x27] in
                   if \<not> includeSystemSchemas
                   then baseQuery @ Sprintf ('' AND n.nspname = \'%s'' @ [CHR 0x27]) [AStr safeSchemaName]
                   else baseQuery @ Sprintf ('' WHERE n.nspname = \'%s'' @ [CHR 0x27]) [AStr safeSchemaName])
             else baseQuery);
          baseQuery = baseQuery @
            ''\<newline>'' @
            ''ORDER BY n.nspname;''
      in baseQuery)\<close>

definition getMySQLSchemasQuery :: "string \<Rightarrow> string" where
  \<open>getMySQLSchemasQuery schemaName =
     (let baseQuery =
            ''\<newline>'' @
            ''SELECT \<newline>'' @
            ''    schema_name,\<newline>'' @
            ''    default_character_set_name AS character_set,\<newline>'' @
            ''    default_collation_name AS collation,\<newline>'' @
            ''    (SELECT COUNT(*) FROM information_schema.tables t WHERE t.table_schema = s.schema_name AND t.table_type = \'BASE TABLE\') AS tables_count,\<newline>'' @
            ''    (SELECT COUNT(*) FROM information_schema.tables t WHERE t.table_schema = s.schema_name AND t.table_type = \'VIEW\') AS views_count,\<newline>'' @
            ''    (SELECT COUNT(*) FROM information_schema.routines r WHERE r.routine_schema = s.schema_name) AS routines_count\<newline>'' @
            ''FROM information_schema.schemata s'';
          baseQuery =
            (if schemaName \<noteq> ''''
             then (let safeSchemaName = Replace schemaName [CHR 0x27] [CHR 0x27, CHR 0x27] in
                   baseQuery @ Sprintf ('' WHERE schema_name = \'%s'' @ [CHR 0x27]) [AStr safeSchemaName])
             else baseQuery);
          baseQuery = baseQuery @
            ''\<newline>'' @
            ''ORDER BY schema_name;''
      in baseQuery)\<close>

subsection \<open>Database statistics\<close>

definition getPostgresStatsQueries :: "bool \<Rightarrow> string list" where
  \<open>getPostgresStatsQueries detailed =
     (let queries =
            [''SELECT pg_size_pretty(pg_database_size(current_database())) AS database_size;'',
             ''SELECT \<newline>'' @
             ''			count(*) AS total_connections,\<newline>'' @
             ''			sum(CASE WHEN state = \'active\' THEN 1 ELSE 0 END) AS active_connections,\<newline>'' @
             ''			sum(CASE WHEN state = \'idle\' THEN 1 ELSE 0 END) AS idle_connections\<newline>'' @
             ''		FROM pg_stat_activity;'',
             ''SELECT \<newline>'' @
             ''			schemaname, \<newline>'' @
             ''			relname AS table_name, \<newline>'' @
             ''			pg_size_pretty(pg_total_relation_size(relid)) AS total_size,\<newline>'' @
             ''			pg_size_pretty(pg_relation_size(relid)) AS table_size,\<newline>'' @
             ''			pg_size_pretty(pg_total_relation_size(relid) - pg_relation_size(relid)) AS index_size,\<newline>'' @
             ''			n_live_tup AS row_count\<newline>'' @
             ''		FROM pg_stat_user_tables\<newline>'' @
             ''		ORDER BY pg_total_relation_size(relid) DESC\<newline>'' @
             ''		LIMIT 10;''];
          queries =
            (if detailed
             then (let detailedQueries =
                         [''SELECT \<newline>'' @
                          ''				schemaname,\<newline>'' @
                          ''				relname AS table_name,\<newline>'' @
                          ''				indexrelname AS index_name,\<newline>'' @
                          ''				idx_scan AS index_scans,\<newline>'' @
                          ''				idx_tup_read AS tuples_read,\<newline>'' @
                          ''				idx_tup_fetch AS tuples_fetched\<newline>'' @
                          ''			FROM pg_stat_user_indexes\<newline>'' @
                          ''			ORDER BY idx_scan DESC\<newline>'' @
                          ''			LIMIT 10;'',
                          ''SELECT \<newline>'' @
                          ''				c.relname AS table_name,\<newline>'' @
                          ''				pg_size_pretty(count(*) * 8192) AS buffer_size,\<newline>'' @
                          ''				round(100.0 * count(*) / (SELECT setting::integer FROM pg_settings WHERE name = \'shared_buffers\'), 2) AS buffer_percent\<newline>'' @
                          ''			FROM pg_class c\<newline>'' @
                          ''			INNER JOIN pg_buffercache b ON b.relfilenode = c.relfilenode\<newline>'' @
                          ''			INNER JOIN pg_database d ON (b.reldatabase = d.oid AND d.datname = current_database())\<newline>'' @
                          ''			WHERE c.relkind IN (\'r\', \'t\', \'m\')\<newline>'' @
                          ''			GROUP BY c.relname\<newline>'' @
                          ''			ORDER BY count(*) DESC\<newline>'' @
                          ''			LIMIT 10;'',
                          ''SELECT \<newline>'' @
                          ''				datname,\<newline>'' @
                          ''				xact_commit AS commits,\<newline>'' @
                          ''				xact_rollback AS rollbacks,\<newline>'' @
                          ''				blks_read,\<newline>'' @
                          ''				blks_hit,\<newline>'' @
                          ''				tup_returned,\<newline>'' @
                          ''				tup_fetched,\<newline>'' @
                          ''				tup_inserted,\<newline>'' @
                          ''				tup_updated,\<newline>'' @
                          ''				tup_deleted\<newline>'' @
                          ''			FROM pg_stat_database\<newline>'' @
                          ''			WHERE datname = current_database();'']
                   in queries @ detailedQueries)
             else queries)
      in queries)\<close>

definition getMySQLStatsQueries :: "bool \<Rightarrow> string list" where
  \<open>getMySQLStatsQueries detailed =
     (let queries =
            [''SELECT \<newline>'' @
             ''			table_schema AS database_name,\<newline>'' @
             ''			ROUND(SUM(data_length + index_length) / 1024 / 1024, 2) AS size_mb\<newline>'' @
             ''		FROM information_schema.tables\<newline>'' @
             ''		WHERE table_schema = DATABASE()\<newline>'' @
             ''		GROUP BY table_schema;'',
             ''SHOW STATUS WHERE Variable_name IN (\'Threads_connected\', \'Threads_running\', \'Max_used_connections\');'',
             ''SELECT \<newline>'' @
             ''			table_name,\<newline>'' @
             ''			engine,\<newline>'' @
             ''			table_rows,\<newline>'' @
             ''			ROUND((data_length + index_length) / 1024 / 1024, 2) AS size_mb,\<newline>'' @
             ''			ROUND(data_length / 1024 / 1024, 2) AS data_size_mb,\<newline>'' @
             ''			ROUND(index_length / 1024 / 1024, 2) AS index_size_mb\<newline>'' @
             ''		FROM information_schema.tables\<newline>'' @
             ''		WHERE table_schema = DATABASE()\<newline>'' @
             ''		ORDER BY (data_length + index_length) DESC\<newline>'' @
             ''		LIMIT 10;''];
          queries =
            (if detailed
             then (let detailedQueries =
                         [''SHOW GLOBAL STATUS WHERE Variable_name LIKE \'Innodb_buffer_pool%\';'',
                          ''SHOW GLOBAL STATUS WHERE Variable_name LIKE \'Qcache%\';'',
                          ''SELECT \<newline>'' @
                          ''				table_schema,\<newline>'' @
                          ''				table_name,\<newline>'' @
                          ''				rows_read,\<newline>'' @
                          ''				rows_inserted,\<newline>'' @
                          ''				rows_updated,\<newline>'' @
                          ''				rows_deleted\<newline>'' @
                          ''			FROM information_schema.table_statistics\<newline>'' @
                          ''			WHERE table_schema = DATABASE()\<newline>'' @
                          ''			ORDER BY rows_read DESC\<newline>'' @
                          ''			LIMIT 10;'',
                          ''SELECT \<newline>'' @
                          ''				table_schema,\<newline>'' @
                          ''				table_name,\<newline>'' @
                          ''				index_name,\<newline>'' @
                          ''				rows_read\<newline>'' @
                          ''			FROM information_schema.index_statistics\<newline>'' @
                          ''			WHERE table_schema = DATABASE()\<newline>'' @
                          ''			ORDER BY rows_read DESC\<newline>'' @
                          ''			LIMIT 10;'']
                   in queries @ detailedQueries)
             else queries)
      in queries)\<close>

subsection \<open>Table statistics\<close>

definition getPostgresTableStatsQueries :: "string \<Rightarrow> bool \<Rightarrow> string list" where
  \<open>getPostgresTableStatsQueries tableName detailed =
     (let safeTableName = Replace tableName [CHR 0x27] [CHR 0x27, CHR 0x27];
          queries =
            [Sprintf
               (''SELECT \<newline>'' @
                ''			pg_size_pretty(pg_total_relation_size(\'%s\')) AS total_size,\<newline>'' @
                ''			pg_size_pretty(pg_relation_size(\'%s\')) AS table_size,\<newline>'' @
                ''			pg_size_pretty(pg_total_relation_size(\'%s\') - pg_relation_size(\'%s\')) AS index_size,\<newline>'' @
                ''			n_live_tup AS row_count,\<newline>'' @
                ''			n_dead_tup AS dead_tuples\<newline>'' @
                ''		FROM pg_stat_user_tables\<newline>'' @
                ''		WHERE relname = \'%s\';'')
               [AStr safeTableName, AStr safeTableName, AStr safeTableName, AStr safeTableName,
                AStr safeTableName],
             Sprintf
               (''SELECT \<newline>'' @
                ''			a.attname AS column_name,\<newline>'' @
                ''			pg_catalog.format_type(a.atttypid, a.atttypmod) AS data_type,\<newline>'' @
                ''			CASE WHEN a.attnotnull THEN \'NOT NULL\' ELSE \'NULL\' END AS nullable,\<newline>'' @
                ''			CASE WHEN (\<newline>'' @
                ''				SELECT COUNT(*) FROM pg_constraint\<newline>'' @
                ''				WHERE conrelid = a.attrelid\<newline>'' @
                ''				AND conkey[1] = a.attnum\<newline>'' @
                ''				AND contype = \'p\'\<newline>'' @
                ''			) > 0 THEN \'PK\' ELSE '' @ [CHR 0x27] @ ''\' END AS is_primary_key\<newline>'' @
                ''		FROM pg_catalog.pg_attribute a\<newline>'' @
                ''		JOIN pg_catalog.pg_class c ON a.attrelid = c.oid\<newline>'' @
                ''		JOIN pg_catalog.pg_namespace n ON c.relnamespace = n.oid\<newline>'' @
                ''		WHERE c.relname = \'%s\'\<newline>'' @
                ''		AND a.attnum > 0\<newline>'' @
                ''		AND NOT a.attisdropped\<newline>'' @
                ''		AND n.nspname = \'public\'\<newline>'' @
                ''		ORDER BY a.attnum;'')
               [AStr safeTableName],
             Sprintf
               (''SELECT \<newline>'' @
                ''			i.relname AS index_name,\<newline>'' @
                ''			pg_size_pretty(pg_relation_size(i.relname::regclass)) AS index_size,\<newline>'' @
                ''			idx_scan AS index_scans,\<newline>'' @
                ''			idx_tup_read AS tuples_read,\<newline>'' @
                ''			idx_tup_fetch AS tuples_fetched,\<newline>'' @
                ''			a.amname AS index_type,\<newline>'' @
                ''			array_to_string(array_agg(pg_catalog.pg_get_indexdef(idx.indexrelid, k + 1, true)), \', \') AS column_names\<newline>'' @
                ''		FROM pg_stat_user_indexes ui\<newline>'' @
                ''		JOIN pg_index idx ON ui.indexrelid = idx.indexrelid\<newline>'' @
                ''		JOIN pg_class i ON idx.indexrelid = i.oid\<newline>'' @
                ''		JOIN pg_class c ON idx.indrelid = c.oid\<newline>'' @
                ''		JOIN pg_am a ON i.relam = a.oid\<newline>'' @
                ''		JOIN pg_namespace n ON c.relnamespace = n.oid,\<newline>'' @
                ''		generate_series(0, subarray(idx.indkey, 0, idx.indnkeyatts)::int[] - 1) AS k\<newline>'' @
                ''		WHERE c.relname = \'%s\'\<newline>'' @
                ''		AND n.nspname = \'public\'\<newline>'' @
                ''		GROUP BY i.relname, ui.idx_scan, ui.idx_tup_read, ui.idx_tup_fetch, a.amname\<newline>'' @
                ''		ORDER BY i.relname;'')
               [AStr safeTableName]];
          queries =
            (if detailed
             then (let detailedQueries =
                         [Sprintf
                            (''SELECT \<newline>'' @
                             ''				seq_scan AS sequential_scans,\<newline>'' @
                             ''				seq_tup_read AS sequential_tuples_read,\<newline>'' @
                             ''				idx_scan AS index_scans,\<newline>'' @
                             ''				idx_tup_fetch AS index_tuples_fetched,\<newline>'' @
                             ''				n_tup_ins AS tuples_inserted,\<newline>'' @
                             ''				n_tup_upd AS tuples_updated,\<newline>'' @
                             ''				n_tup_del AS tuples_deleted,\<newline>'' @
                             ''				n_tup_hot_upd AS hot_updates,\<newline>'' @
                             ''				n_live_tup AS live_tuples,\<newline>'' @
                             ''				n_dead_tup AS dead_tuples,\<newline>'' @
                             ''				vacuum_count,\<newline>'' @
                             ''				autovacuum_count,\<newline>'' @
                             ''				analyze_count,\<newline>'' @
                             ''				autoanalyze_count\<newline>'' @
                             ''			FROM pg_stat_user_tables\<newline>'' @
                             ''			WHERE relname = \'%s\';'')
                            [AStr safeTableName],
                          Sprintf
                            (''SELECT \<newline>'' @
                             ''				current_database() AS db, schemaname, tblname, \<newline>'' @
                             ''				bs*tblpages AS real_size,\<newline>'' @
                             ''				(tblpages-est_tblpages)*bs AS extra_size,\<newline>'' @
                             ''				CASE WHEN tblpages > 0\<newline>'' @
                             ''					THEN 100 * (tblpages-est_tblpages)/tblpages::float\<newline>'' @
                             ''					ELSE 0\<newline>'' @
                             ''				END AS extra_ratio, fillfactor,\<newline>'' @
                             ''				CASE WHEN tblpages > 0 AND tblpages-est_tblpages > 0\<newline>'' @
                             ''					THEN (bs*(tblpages-est_tblpages)/(tblpages)::float)\<newline>'' @
                             ''					ELSE 0\<newline>'' @
                             ''				END AS bloat_size,\<newline>'' @
                             ''				CASE WHEN tblpages > 0 AND tblpages-est_tblpages > 0\<newline>'' @
                             ''					THEN pg_size_pretty((bs*(tblpages-est_tblpages))::bigint)\<newline>'' @
                             ''					ELSE '' @ [CHR 0x27] @ ''\'\<newline>'' @
                             ''				END AS bloat_size_pretty,\<newline>'' @
                             ''				is_na\<newline>'' @
                             ''			FROM (\<newline>'' @
                             ''				SELECT\<newline>'' @
                             ''					ceil(reltuples/((bs-page_hdr)/tpl_size)) + ceil(toasttuples/4) AS est_tblpages,\<newline>'' @
                             ''					tblpages, fillfactor, bs, tblid, schemaname, tblname, heappages, toastpages, is_na\<newline>'' @
                             ''				FROM (\<newline>'' @
                             ''					SELECT\<newline>'' @
                             ''						( 4 + tpl_hdr_size + tpl_data_size + (2*ma)\<newline>'' @
                             ''							- CASE WHEN tpl_hdr_size%ma = 0 THEN ma ELSE tpl_hdr_size%ma END\<newline>'' @
                             ''							- CASE WHEN ceil(tpl_data_size)::int%ma = 0 THEN ma ELSE ceil(tpl_data_size)::int%ma END\<newline>'' @
                             ''						) AS tpl_size, bs - page_hdr AS size_per_block, (heappages + toastpages) AS tblpages, heappages,\<newline>'' @
                             ''						toastpages, reltuples, toasttuples, bs, page_hdr, tblid, schemaname, tblname, fillfactor, is_na\<newline>'' @
                             ''					FROM (\<newline>'' @
                             ''						SELECT\<newline>'' @
                             ''							tbl.oid AS tblid, ns.nspname AS schemaname, tbl.relname AS tblname, tbl.reltuples,\<newline>'' @
                             ''							tbl.relpages AS heappages, coalesce(toast.relpages, 0) AS toastpages,\<newline>'' @
                             ''							coalesce(toast.reltuples, 0) AS toasttuples,\<newline>'' @
                             ''							coalesce(substring(\<newline>'' @
                             ''								array_to_string(tbl.reloptions, \' \')\<newline>'' @
                             ''								FROM \'fillfactor=([0-9]+)\')::smallint, 100) AS fillfactor,\<newline>'' @
                             ''							current_setting(\'block_size\')::numeric AS bs,\<newline>'' @
                             ''							CASE WHEN version()~\'mingw32\' OR version()~\'64-bit|x86_64|ppc64|ia64|amd64\' THEN 8 ELSE 4 END AS ma,\<newline>'' @
                             ''							24 AS page_hdr,\<newline>'' @
                             ''							23 + CASE WHEN MAX(coalesce(s.null_frac,0)) > 0 THEN ( 7 + count(*) ) / 8 ELSE 0::int END\<newline>'' @
                             ''								+ CASE WHEN tbl.relhasoids THEN 4 ELSE 0 END AS tpl_hdr_size,\<newline>'' @
                             ''							sum( (1-coalesce(s.null_frac, 0)) * coalesce(s.avg_width, 1024) ) AS tpl_data_size,\<newline>'' @
                             ''							bool_or(att.atttypid = \'pg_catalog.name\'::regtype) AS is_na\<newline>'' @
                             ''						FROM pg_attribute AS att\<newline>'' @
                             ''							JOIN pg_class AS tbl ON att.attrelid = tbl.oid\<newline>'' @
                             ''							JOIN pg_namespace AS ns ON ns.oid = tbl.relnamespace\<newline>'' @
                             ''							LEFT JOIN pg_stats AS s ON s.schemaname=ns.nspname\<newline>'' @
                             ''								AND s.tablename = tbl.relname AND s.inherited=false AND s.attname=att.attname\<newline>'' @
                             ''							LEFT JOIN pg_class AS toast ON tbl.reltoastrelid = toast.oid\<newline>'' @
                             ''						WHERE NOT att.attisdropped\<newline>'' @
                             ''							AND tbl.relkind = \'r\'\<newline>'' @
                             ''							AND ns.nspname = \'public\'\<newline>'' @
                             ''							AND tbl.relname = \'%s\'\<newline>'' @
                             ''						GROUP BY 1,2,3,4,5,6,7,8,9,10\<newline>'' @
                             ''					) AS s\<newline>'' @
                             ''				) AS s2\<newline>'' @
                             ''			) AS s3;'')
                            [AStr safeTableName]]
                   in queries @ detailedQueries)
             else queries)
      in queries)\<close>

definition getMySQLTableStatsQueries :: "string \<Rightarrow> bool \<Rightarrow> string list" where
  \<open>getMySQLTableStatsQueries tableName detailed =
     (let safeTableName = Replace tableName ''`'' ''``'';
          queries =
            [Sprintf
               (''SELECT \<newline>'' @
                ''			table_name,\<newline>'' @
                ''			engine,\<newline>'' @
                ''			table_rows,\<newline>'' @
                ''			avg_row_length,\<newline>'' @
                ''			ROUND(data_length / 1024 / 1024, 2) AS data_size_mb,\<newline>'' @
                ''			ROUND(index_length / 1024 / 1024, 2) AS index_size_mb,\<newline>'' @
                ''			ROUND((data_length + index_length) / 1024 / 1024, 2) AS total_size_mb\<newline>'' @
                ''		FROM information_schema.tables\<newline>'' @
                ''		WHERE table_schema = DATABASE()\<newline>'' @
                ''		AND table_name = \'%s\';'')
               [AStr safeTableName],
             Sprintf
               (''SELECT \<newline>'' @
                ''			column_name,\<newline>'' @
                ''			column_type,\<newline>'' @
                ''			is_nullable,\<newline>'' @
                ''			column_key,\<newline>'' @
                ''			column_default,\<newline>'' @
                ''			extra\<newline>'' @
                ''		FROM information_schema.columns\<newline>'' @
                ''		WHERE table_schema = DATABASE()\<newline>'' @
                ''		AND table_name = \'%s\'\<newline>'' @
                ''		ORDER BY ordinal_position;'')
               [AStr safeTableName],
             Sprintf
               (''SELECT \<newline>'' @
                ''			index_name,\<newline>'' @
                ''			column_name,\<newline>'' @
                ''			seq_in_index,\<newline>'' @
                ''			non_unique,\<newline>'' @
                ''			CASE \<newline>'' @
                ''				WHEN index_type = \'FULLTEXT\' THEN \'FULLTEXT\'\<newline>'' @
                ''				WHEN index_name = \'PRIMARY\' THEN \'PRIMARY\'\<newline>'' @
                ''				WHEN non_unique = 0 THEN \'UNIQUE\'\<newline>'' @
                ''				ELSE \'INDEX\'\<newline>'' @
                ''			END AS index_type\<newline>'' @
                ''		FROM information_schema.statistics\<newline>'' @
                ''		WHERE table_schema = DATABASE()\<newline>'' @
                ''		AND table_name = \'%s\'\<newline>'' @
                ''		ORDER BY index_name, seq_in_index;'')
               [AStr safeTableName]];
          queries =
            (if detailed
             then (let detailedQueries =
                         [Sprintf
                            (''SHOW TABLE STATUS LIKE \'%s\';'')
                            [AStr safeTableName],
                          Sprintf
                            (''SELECT \<newline>'' @
                             ''				index_name,\<newline>'' @
                             ''				stat_name,\<newline>'' @
                             ''				stat_value\<newline>'' @
                             ''			FROM mysql.index_stats\<newline>'' @
                             ''			WHERE table_name = \'%s\'\<newline>'' @
                             ''			ORDER BY index_name, stat_name;'')
                            [AStr safeTableName],
                          Sprintf
                            (''SELECT \<newline>'' @
                             ''				table_schema,\<newline>'' @
                             ''				table_name,\<newline>'' @
                             ''				rows_read,\<newline>'' @
                             ''				rows_inserted,\<newline>'' @
                             ''				rows_updated,\<newline>'' @
                             ''				rows_deleted\<newline>'' @
                             ''			FROM information_schema.table_statistics\<newline>'' @
                             ''			WHERE table_schema = DATABASE()\<newline>'' @
                             ''			AND table_name = \'%s\';'')
                            [AStr safeTableName]]
                   in queries @ detailedQueries)
             else queries)
      in queries)\<close>

section \<open>The handlers\<close>

text \<open>
  Each \<open>HandleRequest\<close> is modelled on a pair of the world and the executor calls made
  so far, and returns its response or error with the new pair. The context \<open>ctx\<close> and
  the tool's own \<open>dbID\<close> argument (which no handler reads) are left out, and so are
  the calls of the logger. A \<open>nil\<close> parameter slice is the empty list.
\<close>

subsection \<open>ExecuteSQL (GenericSQLTool)\<close>

definition GenericSQLTool_HandleRequest :: "'w handler" where
  \<open>GenericSQLTool_HandleRequest useCase request st =
     (case as_string (param request ''sql'') of
        None \<Rightarrow> (Inl (Errorf ''sql parameter must be a string'' []), st)
      | Some sql \<Rightarrow>
     (case as_string (param request ''database'') of
        None \<Rightarrow> (Inl (Errorf ''database parameter must be a string'' []), st)
      | Some targetDbID \<Rightarrow>
        (let sqlParams =
               (if param request ''params'' \<noteq> PNil
                then (case as_array (param request ''params'') of
                        Some paramsArr \<Rightarrow> paramsArr | None \<Rightarrow> [])
                else []);
             isQuery =
               (if param request ''isQuery'' \<noteq> PNil
                then (case as_bool (param request ''isQuery'') of
                        Some isQueryParam \<Rightarrow> isQueryParam | None \<Rightarrow> False)
                else (let sqlUpper = TrimSpace (ToUpper sql) in
                      HasPrefix sqlUpper ''SELECT'' \<or>
                      HasPrefix sqlUpper ''SHOW'' \<or>
                      HasPrefix sqlUpper ''DESCRIBE'' \<or>
                      HasPrefix sqlUpper ''EXPLAIN''))
         in (case (if isQuery
                   then exec_query useCase targetDbID sql sqlParams st
                   else exec_statement useCase targetDbID sql sqlParams st) of
               (Inl err, st') \<Rightarrow> (Inl err, st')
             | (Inr result, st') \<Rightarrow> (Inr (createTextResponse result), st')))))\<close>

subsection \<open>GetStats and GetTableStats\<close>

text \<open>
  The loop \<^verbatim>\<open>for _, query := range queries\<close> of \<open>DbStatsTool.HandleRequest\<close> and
  of \<open>TableStatsTool.HandleRequest\<close> (the two loops differ in the logged message
  only): \<open>results\<close> is the string builder.
\<close>

fun stats_loop ::
  "'w UseCaseProvider \<Rightarrow> string \<Rightarrow> string list \<Rightarrow> string \<Rightarrow> 'w exec_state
     \<Rightarrow> string \<times> 'w exec_state" where
  "stats_loop useCase targetDbID [] results st = (results, st)"
| "stats_loop useCase targetDbID (query # queries) results st =
     (case exec_query useCase targetDbID query [] st of
        (Inl err, st') \<Rightarrow>
          stats_loop useCase targetDbID queries
            (results @ Sprintf ''Error executing query: %s\<newline>%v\<newline>\<newline>'' [AStr query, AStr err]) st'
      | (Inr result, st') \<Rightarrow>
          stats_loop useCase targetDbID queries
            ((results @ result) @ ''\<newline>\<newline>'') st')"

definition DbStatsTool_HandleRequest :: "'w handler" where
  \<open>DbStatsTool_HandleRequest useCase request st =
     (case as_string (param request ''database'') of
        None \<Rightarrow> (Inl (Errorf ''database parameter must be a string'' []), st)
      | Some targetDbID \<Rightarrow>
        (let detailed = optional_bool request ''detailed'' False in
         (case GetDatabaseType useCase targetDbID of
            Inl err \<Rightarrow> (Inl (Errorf ''failed to get database type: %w'' [AStr err]), st)
          | Inr dbType \<Rightarrow>
            (case (if ToLower dbType = ''postgres'' then Inr (getPostgresStatsQueries detailed)
                   else if ToLower dbType = ''mysql'' then Inr (getMySQLStatsQueries detailed)
                   else Inl (Errorf ''unsupported database type for statistics: %s'' [AStr dbType])) of
               Inl unsupported \<Rightarrow> (Inl unsupported, st)
             | Inr queries \<Rightarrow>
               (case stats_loop useCase targetDbID queries
                       (Sprintf ''# Database Statistics for %s (%s)\<newline>\<newline>''
                          [AStr targetDbID, AStr dbType]) st of
                  (results, st') \<Rightarrow> (Inr (createTextResponse results), st'))))))\<close>

definition TableStatsTool_HandleRequest :: "'w handler" where
  \<open>TableStatsTool_HandleRequest useCase request st =
     (case as_string (param request ''database'') of
        None \<Rightarrow> (Inl (Errorf ''database parameter must be a string'' []), st)
      | Some targetDbID \<Rightarrow>
     (case as_string (param request ''table'') of
        None \<Rightarrow> (Inl (Errorf ''table parameter must be a string'' []), st)
      | Some tableName \<Rightarrow>
        (let detailed = optional_bool request ''detailed'' False in
         (case GetDatabaseType useCase targetDbID of
            Inl err \<Rightarrow> (Inl (Errorf ''failed to get database type: %w'' [AStr err]), st)
          | Inr dbType \<Rightarrow>
            (case (if ToLower dbType = ''postgres''
                   then Inr (getPostgresTableStatsQueries tableName detailed)
                   else if ToLower dbType = ''mysql''
                   then Inr (getMySQLTableStatsQueries tableName detailed)
                   else Inl (Errorf ''unsupported database type for table statistics: %s''
                               [AStr dbType])) of
               Inl unsupported \<Rightarrow> (Inl unsupported, st)
             | Inr queries \<Rightarrow>
               (case stats_loop useCase targetDbID queries
                       (Sprintf ''# Table Statistics for %s.%s\<newline>\<newline>''
                          [AStr targetDbID, AStr tableName]) st of
                  (results, st') \<Rightarrow> (Inr (createTextResponse results), st')))))))\<close>

subsection \<open>The describe capabilities\<close>

definition GetIndexesTool_HandleRequest :: "'w handler" where
  \<open>GetIndexesTool_HandleRequest useCase request st =
     (case as_string (param request ''database'') of
        None \<Rightarrow> (Inl (Errorf ''database parameter must be a string'' []), st)
      | Some targetDbID \<Rightarrow>
        (let tableName = optional_string request ''table'' '''';
             detailed = optional_bool request ''detailed'' False in
         (case GetDatabaseType useCase targetDbID of
            Inl err \<Rightarrow> (Inl (Errorf ''failed to get database type: %w'' [AStr err]), st)
          | Inr dbType \<Rightarrow>
            (case (if ToLower dbType = ''postgres''
                   then Inr (getPostgresIndexesQuery tableName detailed)
                   else if ToLower dbType = ''mysql''
                   then Inr (getMySQLIndexesQuery tableName detailed)
                   else Inl (Errorf ''unsupported database type for indexes: %s'' [AStr dbType])) of
               Inl unsupported \<Rightarrow> (Inl unsupported, st)
             | Inr query \<Rightarrow>
               (case exec_query useCase targetDbID query [] st of
                  (Inl err, st') \<Rightarrow> (Inl (Errorf ''failed to get indexes: %w'' [AStr err]), st')
                | (Inr result, st') \<Rightarrow>
                  (let response =
                         (if tableName = ''''
                          then Sprintf ''# All Indexes in Database %s\<newline>\<newline>''
                                 [AStr targetDbID]
                          else Sprintf ''# Indexes for Table %s in Database %s\<newline>\<newline>''
                                 [AStr tableName, AStr targetDbID]);
                       response = response @ result
                   in (Inr (createTextResponse response), st')))))))\<close>

definition GetConstraintsTool_HandleRequest :: "'w handler" where
  \<open>GetConstraintsTool_HandleRequest useCase request st =
     (case as_string (param request ''database'') of
        None \<Rightarrow> (Inl (Errorf ''database parameter must be a string'' []), st)
      | Some targetDbID \<Rightarrow>
        (let tableName = optional_string request ''table'' '''';
             constraintType = optional_string request ''constraint_type'' '''' in
         (case GetDatabaseType useCase targetDbID of
            Inl err \<Rightarrow> (Inl (Errorf ''failed to get database type: %w'' [AStr err]), st)
          | Inr dbType \<Rightarrow>
            (case (if ToLower dbType = ''postgres''
                   then Inr (getPostgresConstraintsQuery tableName constraintType)
                   else if ToLower dbType = ''mysql''
                   then Inr (getMySQLConstraintsQuery tableName constraintType)
                   else Inl (Errorf ''unsupported database type for constraints: %s''
                               [AStr dbType])) of
               Inl unsupported \<Rightarrow> (Inl unsupported, st)
             | Inr query \<Rightarrow>
               (case exec_query useCase targetDbID query [] st of
                  (Inl err, st') \<Rightarrow> (Inl (Errorf ''failed to get constraints: %w'' [AStr err]), st')
                | (Inr result, st') \<Rightarrow>
                  (let response =
                         (if tableName = ''''
                          then (if constraintType = ''''
                                then Sprintf ''# All Constraints in Database %s\<newline>\<newline>''
                                       [AStr targetDbID]
                                else Sprintf ''# %s Constraints in Database %s\<newline>\<newline>''
                                       [AStr constraintType, AStr targetDbID])
                          else (if constraintType = ''''
                                then Sprintf
                                       ''# All Constraints for Table %s in Database %s\<newline>\<newline>''
                                       [AStr tableName, AStr targetDbID]
                                else Sprintf
                                       ''# %s Constraints for Table %s in Database %s\<newline>\<newline>''
                                       [AStr constraintType, AStr tableName, AStr targetDbID]));
                       response = response @ result
                   in (Inr (createTextResponse response), st')))))))\<close>

definition GetViewsTool_HandleRequest :: "'w handler" where
  \<open>GetViewsTool_HandleRequest useCase request st =
     (case as_string (param request ''database'') of
        None \<Rightarrow> (Inl (Errorf ''database parameter must be a string'' []), st)
      | Some targetDbID \<Rightarrow>
        (let viewName = optional_string request ''view'' '''';
             includeDefinition = optional_bool request ''include_definition'' True in
         (case GetDatabaseType useCase targetDbID of
            Inl err \<Rightarrow> (Inl (Errorf ''failed to get database type: %w'' [AStr err]), st)
          | Inr dbType \<Rightarrow>
            (case (if ToLower dbType = ''postgres''
                   then Inr (getPostgresViewsQuery viewName includeDefinition)
                   else if ToLower dbType = ''mysql''
                   then Inr (getMySQLViewsQuery viewName includeDefinition)
                   else Inl (Errorf ''unsupported database type for views: %s'' [AStr dbType])) of
               Inl unsupported \<Rightarrow> (Inl unsupported, st)
             | Inr query \<Rightarrow>
               (case exec_query useCase targetDbID query [] st of
                  (Inl err, st') \<Rightarrow> (Inl (Errorf ''failed to get views: %w'' [AStr err]), st')
                | (Inr result, st') \<Rightarrow>
                  (let response =
                         (if viewName = ''''
                          then Sprintf ''# All Views in Database %s\<newline>\<newline>''
                                 [AStr targetDbID]
                          else Sprintf ''# View Definition for %s in Database %s\<newline>\<newline>''
                                 [AStr viewName, AStr targetDbID]);
                       response = response @ result
                   in (Inr (createTextResponse response), st')))))))\<close>

text \<open>In \<open>GetTypesTool.HandleRequest\<close> the \<open>mysql\<close> case of the switch returns a
  text response at once; \<open>Inr (Inl text)\<close> below is that early return and
  \<open>Inr (Inr query)\<close> the query of the \<open>postgres\<close> case.\<close>

definition GetTypesTool_HandleRequest :: "'w handler" where
  \<open>GetTypesTool_HandleRequest useCase request st =
     (case as_string (param request ''database'') of
        None \<Rightarrow> (Inl (Errorf ''database parameter must be a string'' []), st)
      | Some targetDbID \<Rightarrow>
        (let typeName = optional_string request ''type_name'' '''' in
         (case GetDatabaseType useCase targetDbID of
            Inl err \<Rightarrow> (Inl (Errorf ''failed to get database type: %w'' [AStr err]), st)
          | Inr dbType \<Rightarrow>
            (case (if ToLower dbType = ''postgres''
                   then Inr (Inr (getPostgresTypesQuery typeName))
                   else if ToLower dbType = ''mysql''
                   then Inr (Inl ''MySQL does not support custom data types in the same way as PostgreSQL. It only has built-in data types.'')
                   else Inl (Errorf ''unsupported database type for custom data types: %s''
                               [AStr dbType])) of
               Inl unsupported \<Rightarrow> (Inl unsupported, st)
             | Inr (Inl text) \<Rightarrow> (Inr (createTextResponse text), st)
             | Inr (Inr query) \<Rightarrow>
               (case exec_query useCase targetDbID query [] st of
                  (Inl err, st') \<Rightarrow>
                    (Inl (Errorf ''failed to get custom data types: %w'' [AStr err]), st')
                | (Inr result, st') \<Rightarrow>
                  (let response =
                         (if typeName = ''''
                          then Sprintf ''# All Custom Data Types in Database %s\<newline>\<newline>''
                                 [AStr targetDbID]
                          else Sprintf
                                 ''# Custom Data Type Definition for %s in Database %s\<newline>\<newline>''
                                 [AStr typeName, AStr targetDbID]);
                       response = response @ result
                   in (Inr (createTextResponse response), st')))))))\<close>

definition GetSchemasTool_HandleRequest :: "'w handler" where
  \<open>GetSchemasTool_HandleRequest useCase request st =
     (case as_string (param request ''database'') of
        None \<Rightarrow> (Inl (Errorf ''database parameter must be a string'' []), st)
      | Some targetDbID \<Rightarrow>
        (let schemaName = optional_string request ''schema'' '''';
             includeSystemSchemas = optional_bool request ''include_system_schemas'' False in
         (case GetDatabaseType useCase targetDbID of
            Inl err \<Rightarrow> (Inl (Errorf ''failed to get database type: %w'' [AStr err]), st)
          | Inr dbType \<Rightarrow>
            (case (if ToLower dbType = ''postgres''
                   then Inr (getPostgresSchemasQuery schemaName includeSystemSchemas)
                   else if ToLower dbType = ''mysql''
                   then Inr (getMySQLSchemasQuery schemaName)
                   else Inl (Errorf ''unsupported database type for schemas: %s'' [AStr dbType])) of
               Inl unsupported \<Rightarrow> (Inl unsupported, st)
             | Inr query \<Rightarrow>
               (case exec_query useCase targetDbID query [] st of
                  (Inl err, st') \<Rightarrow> (Inl (Errorf ''failed to get schemas: %w'' [AStr err]), st')
                | (Inr result, st') \<Rightarrow>
                  (let response =
                         (if schemaName = ''''
                          then Sprintf ''# All Schemas in Database %s\<newline>\<newline>''
                                 [AStr targetDbID]
                          else Sprintf ''# Schema Information for %s in Database %s\<newline>\<newline>''
                                 [AStr schemaName, AStr targetDbID]);
                       response = response @ result
                   in (Inr (createTextResponse response), st')))))))\<close>

subsection \<open>GetSampleData and GetUniqueValues\<close>

definition GetSampleDataTool_HandleRequest :: "'w handler" where
  \<open>GetSampleDataTool_HandleRequest useCase request st =
     (case as_string (param request ''database'') of
        None \<Rightarrow> (Inl (Errorf ''database parameter must be a string'' []), st)
      | Some targetDbID \<Rightarrow>
     (case as_string (param request ''table'') of
        None \<Rightarrow> (Inl (Errorf ''table parameter must be a string'' []), st)
      | Some tableName \<Rightarrow>
        (let limit = optional_int request ''limit'' 10;
             whereClause = optional_string request ''where'' '''';
             orderByClause = optional_string request ''order_by'' '''';
             random = optional_bool request ''random'' False in
         (case GetDatabaseType useCase targetDbID of
            Inl err \<Rightarrow> (Inl (Errorf ''failed to get database type: %w'' [AStr err]), st)
          | Inr dbType \<Rightarrow>
            (let query = buildSampleDataQuery dbType tableName limit whereClause orderByClause random in
             (case exec_query useCase targetDbID query [] st of
                (Inl err, st') \<Rightarrow> (Inl (Errorf ''failed to get sample data: %w'' [AStr err]), st')
              | (Inr result, st') \<Rightarrow>
                (let response =
                       Sprintf ''# Sample Data from Table %s in Database %s\<newline>\<newline>''
                         [AStr tableName, AStr targetDbID];
                     response = response @ result
                 in (Inr (createTextResponse response), st'))))))))\<close>

definition GetUniqueValuesTool_HandleRequest :: "'w handler" where
  \<open>GetUniqueValuesTool_HandleRequest useCase request st =
     (case as_string (param request ''database'') of
        None \<Rightarrow> (Inl (Errorf ''database parameter must be a string'' []), st)
      | Some targetDbID \<Rightarrow>
     (case as_string (param request ''table'') of
        None \<Rightarrow> (Inl (Errorf ''table parameter must be a string'' []), st)
      | Some tableName \<Rightarrow>
     (case as_string (param request ''column'') of
        None \<Rightarrow> (Inl (Errorf ''column parameter must be a string'' []), st)
      | Some columnName \<Rightarrow>
        (let limit = optional_int request ''limit'' 100;
             whereClause = optional_string request ''where'' '''';
             includeCounts = optional_bool request ''include_counts'' True;
             includeNulls = optional_bool request ''include_nulls'' True in
         (case GetDatabaseType useCase targetDbID of
            Inl err \<Rightarrow> (Inl (Errorf ''failed to get database type: %w'' [AStr err]), st)
          | Inr dbType \<Rightarrow>
            (let query = buildUniqueValuesQuery dbType tableName columnName limit whereClause
                           includeCounts includeNulls in
             (case exec_query useCase targetDbID query [] st of
                (Inl err, st') \<Rightarrow> (Inl (Errorf ''failed to get unique values: %w'' [AStr err]), st')
              | (Inr result, st') \<Rightarrow>
                (let response =
                       Sprintf
                         ''# Unique Values in Column %s of Table %s in Database %s\<newline>\<newline>''
                         [AStr columnName, AStr tableName, AStr targetDbID];
                     response = response @ result
                 in (Inr (createTextResponse response), st')))))))))\<close>

section \<open>Notions of the specification\<close>



text \<open>
  The specification's words for the partial failure of a statistics capability.
  \<open>exec_outcomes\<close> lists what the executor returns for the statements, executed in
  order, each on the world its predecessors left. \<open>fails_only_at k\<close> says that exactly
  statement \<open>k\<close> fails. \<open>section_text\<close> is the section of the report for one statement
  and its outcome, and \<open>sections_report_failure_at k\<close> is the claim on the sections:
  there is one per statement, section \<open>k\<close> is the inline error marker followed by
  the statement and the error, and every other section is the statement's result.
\<close>

fun exec_outcomes ::
  "'w UseCaseProvider \<Rightarrow> string \<Rightarrow> string list \<Rightarrow> 'w exec_state \<Rightarrow> (go_error + string) list" where
  "exec_outcomes useCase dbID [] st = []"
| "exec_outcomes useCase dbID (query # queries) st =
     (case exec_query useCase dbID query [] st of
        (r, st') \<Rightarrow> r # exec_outcomes useCase dbID queries st')"

definition fails_only_at :: "nat \<Rightarrow> (go_error + string) list \<Rightarrow> bool" where
  "fails_only_at k outs \<longleftrightarrow> k < length outs \<and> (\<forall>i < length outs. isl (outs ! i) \<longleftrightarrow> i = k)"

fun section_text :: "string \<Rightarrow> go_error + string \<Rightarrow> string" where
  "section_text query (Inl err) =
     ''Error executing query: '' @ query @ ''\<newline>'' @ err @ ''\<newline>\<newline>''"
| "section_text query (Inr result) = result @ ''\<newline>\<newline>''"

definition sections_report_failure_at ::
  "nat \<Rightarrow> string list \<Rightarrow> (go_error + string) list \<Rightarrow> string list \<Rightarrow> bool" where
  "sections_report_failure_at k queries outs secs \<longleftrightarrow>
     length secs = length queries \<and>
     (case outs ! k of
        Inl err \<Rightarrow>
          secs ! k = ''Error executing query: '' @ queries ! k @ ''\<newline>'' @ err @ ''\<newline>\<newline>''
      | Inr result \<Rightarrow> False) \<and>
     (\<forall>i < length queries. i \<noteq> k \<longrightarrow>
        (case outs ! i of
           Inl err \<Rightarrow> False
         | Inr result \<Rightarrow> secs ! i = result @ ''\<newline>\<newline>''))"

text \<open>A call fails before any execution: it returns an error, and the world and the
  list of executor calls are as they were.\<close>

definition fails_without_executing ::
  "'w handler \<Rightarrow> 'w UseCaseProvider \<Rightarrow> ToolCallRequest \<Rightarrow> 'w exec_state \<Rightarrow> bool" where
  "fails_without_executing handle useCase request st \<longleftrightarrow>
     isl (fst (handle useCase request st)) \<and> snd (handle useCase request st) = st"

text \<open>The dialect's quoted form of an identifier, in the specification's words: the
  name between double quotes (postgres) or backquotes (any other dialect), with the
  quote characters inside it doubled.\<close>

definition quoted_identifier :: "string \<Rightarrow> string \<Rightarrow> string" where
  \<open>quoted_identifier dbType name =
     (if ToLower dbType = ''postgres''
      then ''"'' @ Replace name ''"'' ''""'' @ ''"''
      else ''`'' @ Replace name ''`'' ''``'' @ ''`'')\<close>

text \<open>
  The clauses of a generated statement, read off its text. Every clause keyword of
  the builders starts a line. \<open>drop_until kw s\<close> is \<open>s\<close> from the first occurrence of
  \<open>kw\<close> on (empty when there is none), \<open>take_until kw s\<close> is \<open>s\<close> before the first
  occurrence of \<open>kw\<close> (all of \<open>s\<close> when there is none), and \<open>after_last kw s\<close> is \<open>s\<close>
  after the last occurrence of \<open>kw\<close> (empty when there is none).
  \<open>from_clauses\<close> is the text of the FROM and JOIN clauses: from the first FROM line up
  to the WHERE line that follows. \<open>group_by_clause\<close> is the grouping list: the text
  after the last GROUP BY keyword up to the ORDER BY line (the caller's names stand
  before it in the statements of the builders).
\<close>

fun drop_until :: "string \<Rightarrow> string \<Rightarrow> string" where
  "drop_until kw [] = []"
| "drop_until kw (c # s) = (if prefix kw (c # s) then c # s else drop_until kw s)"

fun take_until :: "string \<Rightarrow> string \<Rightarrow> string" where
  "take_until kw [] = []"
| "take_until kw (c # s) = (if prefix kw (c # s) then [] else c # take_until kw s)"

definition after_last :: "string \<Rightarrow> string \<Rightarrow> string" where
  "after_last kw s = (if sublist kw s then rev (take_until (rev kw) (rev s)) else [])"

definition from_clauses :: "string \<Rightarrow> string" where
  "from_clauses sql = take_until ''\<newline>WHERE '' (drop_until ''\<newline>FROM '' sql)"

definition group_by_clause :: "string \<Rightarrow> string" where
  "group_by_clause sql = take_until ''\<newline>ORDER BY '' (after_last ''\<newline>GROUP BY '' sql)"

section \<open>The text of the index and view builders, piece by piece\<close>

text \<open>
  The builders of GetIndexes and GetViews assemble their statement from fixed pieces
  of text. The pieces are named here, so that the structure of the statements can be
  stated (the lemmas \<open>getPostgresIndexesQuery_pieces\<close>, \<open>getMySQLIndexesQuery_pieces\<close>,
  \<open>getPostgresViewsQuery_pieces\<close> and \<open>getMySQLViewsQuery_pieces\<close> prove that the
  builders emit exactly these pieces).
\<close>

definition pg_indexes_columns :: string where
  \<open>pg_indexes_columns =
     ''\<newline>'' @
     ''SELECT \<newline>'' @
     ''    t.relname AS table_name,\<newline>'' @
     ''    i.relname AS index_name,\<newline>'' @
     ''    a.amname AS index_type,\<newline>'' @
     ''    CASE \<newline>'' @
     ''        WHEN ix.indisprimary THEN \'PRIMARY KEY\'\<newline>'' @
     ''        WHEN ix.indisunique THEN \'UNIQUE\'\<newline>'' @
     ''        ELSE \'INDEX\'\<newline>'' @
     ''    END AS constraint_type,\<newline>'' @
     ''    array_to_string(array_agg(pg_get_indexdef(ix.indexrelid, k + 1, true)), \', \') AS column_names''\<close>

definition pg_indexes_detail_columns :: string where
  \<open>pg_indexes_detail_columns =
     '',\<newline>'' @
     ''    pg_size_pretty(pg_relation_size(i.oid)) AS index_size,\<newline>'' @
     ''    pg_get_indexdef(ix.indexrelid) AS index_definition,\<newline>'' @
     ''    CASE WHEN ix.indpred IS NOT NULL THEN \'Yes\' ELSE \'No\' END AS is_partial,\<newline>'' @
     ''    CASE WHEN a.amname = \'btree\' AND ix.indoption[0] & 1 = 1 THEN \'DESC\' ELSE \'ASC\' END AS sort_order''\<close>

definition pg_indexes_from_where :: string where
  \<open>pg_indexes_from_where =
     ''\<newline>'' @
     ''FROM pg_index ix\<newline>'' @
     ''JOIN pg_class i ON i.oid = ix.indexrelid\<newline>'' @
     ''JOIN pg_class t ON t.oid = ix.indrelid\<newline>'' @
     ''JOIN pg_namespace n ON n.oid = t.relnamespace\<newline>'' @
     ''JOIN pg_am a ON a.oid = i.relam,\<newline>'' @
     ''generate_series(0, array_length(ix.indkey, 1) - 1) AS k\<newline>'' @
     ''WHERE n.nspname = \'public'' @ [CHR 0x27]\<close>

definition pg_indexes_group_columns :: string where
  \<open>pg_indexes_group_columns =
     ''t.relname, i.relname, a.amname, ix.indisprimary, ix.indisunique''\<close>

definition pg_indexes_detail_group_columns :: string where
  \<open>pg_indexes_detail_group_columns =
     '', i.oid, ix.indexrelid, ix.indpred, a.amname, ix.indoption''\<close>

definition pg_indexes_order_columns :: string where
  \<open>pg_indexes_order_columns =
     ''t.relname, i.relname;''\<close>

definition mysql_indexes_columns :: string where
  \<open>mysql_indexes_columns =
     ''\<newline>'' @
     ''SELECT \<newline>'' @
     ''    table_name,\<newline>'' @
     ''    index_name,\<newline>'' @
     ''    GROUP_CONCAT(column_name ORDER BY seq_in_index) AS column_names,\<newline>'' @
     ''    CASE \<newline>'' @
     ''        WHEN index_name = \'PRIMARY\' THEN \'PRIMARY KEY\'\<newline>'' @
     ''        WHEN non_unique = 0 THEN \'UNIQUE\'\<newline>'' @
     ''        ELSE \'INDEX\'\<newline>'' @
     ''    END AS constraint_type,\<newline>'' @
     ''    index_type''\<close>

definition mysql_indexes_detail_columns :: string where
  \<open>mysql_indexes_detail_columns =
     '',\<newline>'' @
     ''    CASE WHEN index_name = \'PRIMARY\' THEN \'YES\' ELSE \'NO\' END AS is_primary,\<newline>'' @
     ''    CASE WHEN non_unique = 0 THEN \'YES\' ELSE \'NO\' END AS is_unique,\<newline>'' @
     ''    CASE WHEN index_type = \'FULLTEXT\' THEN \'YES\' ELSE \'NO\' END AS is_fulltext,\<newline>'' @
     ''    CASE WHEN index_comment != '' @ [CHR 0x27] @ ''\' THEN index_comment ELSE NULL END AS comment''\<close>

definition mysql_indexes_from_where :: string where
  \<open>mysql_indexes_from_where =
     ''\<newline>'' @
     ''FROM information_schema.statistics\<newline>'' @
     ''WHERE table_schema = DATABASE()''\<close>

definition mysql_indexes_group_columns :: string where
  \<open>mysql_indexes_group_columns =
     ''table_name, index_name, non_unique, index_type''\<close>

definition mysql_indexes_detail_group_columns :: string where
  \<open>mysql_indexes_detail_group_columns =
     '', index_comment''\<close>

definition mysql_indexes_order_columns :: string where
  \<open>mysql_indexes_order_columns =
     ''table_name, index_name;''\<close>

definition pg_views_with_definition :: string where
  \<open>pg_views_with_definition =
     ''\<newline>'' @
     ''SELECT \<newline>'' @
     ''    schemaname AS schema_name,\<newline>'' @
     ''    viewname AS view_name,\<newline>'' @
     ''    definition AS view_definition\<newline>'' @
     ''FROM pg_catalog.pg_views\<newline>'' @
     ''WHERE schemaname NOT IN (\'pg_catalog\', \'information_schema\')''\<close>

definition pg_views_without_definition :: string where
  \<open>pg_views_without_definition =
     ''\<newline>'' @
     ''SELECT \<newline>'' @
     ''    schemaname AS schema_name,\<newline>'' @
     ''    viewname AS view_name,\<newline>'' @
     ''    \'Definition not included\' AS view_definition\<newline>'' @
     ''FROM pg_catalog.pg_views\<newline>'' @
     ''WHERE schemaname NOT IN (\'pg_catalog\', \'information_schema\')''\<close>

definition pg_views_order_by :: string where
  \<open>pg_views_order_by =
     ''\<newline>'' @
     ''ORDER BY schemaname, viewname;''\<close>

definition mysql_views_columns :: string where
  \<open>mysql_views_columns =
     ''\<newline>'' @
     ''SELECT \<newline>'' @
     ''    table_schema AS schema_name,\<newline>'' @
     ''    table_name AS view_name''\<close>

definition mysql_views_definition_column :: string where
  \<open>mysql_views_definition_column =
     '',\<newline>'' @
     ''    view_definition''\<close>

definition mysql_views_no_definition_column :: string where
  \<open>mysql_views_no_definition_column =
     '',\<newline>'' @
     ''    \'Definition not included\' AS view_definition''\<close>

definition mysql_views_from_where :: string where
  \<open>mysql_views_from_where =
     ''\<newline>'' @
     ''FROM information_schema.views\<newline>'' @
     ''WHERE table_schema = DATABASE()''\<close>

definition mysql_views_order_by :: string where
  \<open>mysql_views_order_by =
     ''\<newline>'' @
     ''ORDER BY table_schema, table_name;''\<close>

section \<open>Basic facts\<close>

lemma Replace_char [simp]:
  "Replace (c # s) [q] new = (if c = q then new @ Replace s [q] new else c # Replace s [q] new)"
  by (simp add: Replace.simps(2))

lemmas fmt_simps = Sprintf_def Errorf_def fmt_verb_def

lemma Itoa_10: "Itoa 10 = ''10''"
  by (simp add: Itoa_def nat_digits.simps digit_char_def)

lemma Itoa_100: "Itoa 100 = ''100''"
  by (simp add: Itoa_def nat_digits.simps digit_char_def)

lemma param_Some [simp]: "Parameters request k = Some v \<Longrightarrow> param request k = v"
  by (simp add: param_def)

lemma param_None [simp]: "Parameters request k = None \<Longrightarrow> param request k = PNil"
  by (simp add: param_def)

lemma buildSampleDataQuery_random:
  \<open>buildSampleDataQuery dbType tableName limit whereClause orderByClause True =
     ''SELECT * FROM '' @
     (if ToLower dbType = ''postgres''
      then ''"'' @ Replace tableName ''"'' ''""'' @ ''"''
      else ''`'' @ Replace tableName ''`'' ''``'' @ ''`'') @
     (if whereClause = [] then [] else '' WHERE '' @ whereClause) @
     (if ToLower dbType = ''postgres'' then '' ORDER BY RANDOM()'' else '' ORDER BY RAND()'') @
     '' LIMIT '' @ Itoa limit\<close>
  by (simp add: buildSampleDataQuery_def fmt_simps)

lemma buildSampleDataQuery_ordered:
  \<open>buildSampleDataQuery dbType tableName limit whereClause orderByClause False =
     ''SELECT * FROM '' @
     (if ToLower dbType = ''postgres''
      then ''"'' @ Replace tableName ''"'' ''""'' @ ''"''
      else ''`'' @ Replace tableName ''`'' ''``'' @ ''`'') @
     (if whereClause = [] then [] else '' WHERE '' @ whereClause) @
     (if orderByClause = [] then [] else '' ORDER BY '' @ orderByClause) @
     '' LIMIT '' @ Itoa limit\<close>
  by (simp add: buildSampleDataQuery_def fmt_simps)

lemmas demo_simps = request_of_def demo_useCase_def optional_string_def optional_bool_def
  optional_int_def param_def

lemma param_update_other:
  "k' \<noteq> k \<Longrightarrow>
     param (request\<lparr>Parameters := (Parameters request)(k := v)\<rparr>) k' = param request k'"
  by (simp add: param_def)

lemma optional_update_other:
  assumes "k' \<noteq> k"
  shows "optional_string (request\<lparr>Parameters := (Parameters request)(k := v)\<rparr>) k' ds
           = optional_string request k' ds"
    and "optional_bool (request\<lparr>Parameters := (Parameters request)(k := v)\<rparr>) k' db
           = optional_bool request k' db"
    and "optional_int (request\<lparr>Parameters := (Parameters request)(k := v)\<rparr>) k' di
           = optional_int request k' di"
  using assms
  by (simp_all add: optional_string_def optional_bool_def optional_int_def param_update_other)

lemma to_lower_upper [simp]: "to_lower_char (to_upper_char c) = to_lower_char c"
  by (simp add: to_lower_char_def to_upper_char_def)

lemma to_upper_lower [simp]: "to_upper_char (to_lower_char c) = to_upper_char c"
  by (simp add: to_lower_char_def to_upper_char_def)

lemma is_space_to_upper [simp]: "is_space (to_upper_char c) = is_space c"
  by (simp add: is_space_def to_upper_char_def)






lemma length_exec_outcomes [simp]:
  "length (exec_outcomes useCase db queries st) = length queries"
  by (induction queries arbitrary: st) (auto split: prod.splits)

lemma stats_loop_report:
  "fst (stats_loop useCase db queries results st) =
     results @ concat (map2 section_text queries (exec_outcomes useCase db queries st))"
proof (induction queries arbitrary: results st)
  case Nil
  show ?case by simp
next
  case (Cons query queries)
  obtain r st' where step: "exec_query useCase db query [] st = (r, st')"
    by (cases "exec_query useCase db query [] st")
  show ?case
  proof (cases r)
    case (Inl err)
    with step Cons.IH show ?thesis by (simp add: fmt_simps)
  next
    case (Inr result)
    with step Cons.IH show ?thesis by simp
  qed
qed

lemma stats_loop_calls:
  "snd (snd (stats_loop useCase db queries results st)) =
     snd st @ map (\<lambda>query. QueryCall db query []) queries"
proof (induction queries arbitrary: results st)
  case Nil
  show ?case by simp
next
  case (Cons query queries)
  obtain r st' where step: "exec_query useCase db query [] st = (r, st')"
    by (cases "exec_query useCase db query [] st")
  then have calls: "snd st' = snd st @ [QueryCall db query []]"
    by (auto simp: exec_query_def split: prod.splits)
  show ?case
    using step Cons.IH calls by (cases r) simp_all
qed

lemma sections_of_single_failure:
  assumes len: "length outs = length queries"
    and only: "fails_only_at k outs"
  shows "sections_report_failure_at k queries outs (map2 section_text queries outs)"
proof -
  from only have k: "k < length outs" and isl: "isl (outs ! k)"
    and others: "\<And>i. i < length outs \<Longrightarrow> i \<noteq> k \<Longrightarrow> \<not> isl (outs ! i)"
    by (auto simp: fails_only_at_def)
  have nth: "\<And>i. i < length queries \<Longrightarrow>
      map2 section_text queries outs ! i = section_text (queries ! i) (outs ! i)"
    using len by simp
  have at_k: "case outs ! k of
        Inl err \<Rightarrow> map2 section_text queries outs ! k =
          ''Error executing query: '' @ queries ! k @ ''\<newline>'' @ err @ ''\<newline>\<newline>''
      | Inr result \<Rightarrow> False"
    using isl k len nth [of k] by (cases "outs ! k") simp_all
  have elsewhere: "\<forall>i < length queries. i \<noteq> k \<longrightarrow>
        (case outs ! i of
           Inl err \<Rightarrow> False
         | Inr result \<Rightarrow> map2 section_text queries outs ! i = result @ ''\<newline>\<newline>'')"
  proof (intro allI impI)
    fix i assume i: "i < length queries" "i \<noteq> k"
    with others [of i] len have "\<not> isl (outs ! i)" by simp
    with nth [OF i(1)] show "case outs ! i of
           Inl err \<Rightarrow> False
         | Inr result \<Rightarrow> map2 section_text queries outs ! i = result @ ''\<newline>\<newline>''"
      by (cases "outs ! i") simp_all
  qed
  show ?thesis
    unfolding sections_report_failure_at_def
    using at_k elsewhere len by simp
qed

lemma exec_ignores_resolver:
  "exec_query (useCase\<lparr>GetDatabaseType := resolve\<rparr>) = exec_query useCase"
  "exec_statement (useCase\<lparr>GetDatabaseType := resolve\<rparr>) = exec_statement useCase"
  by (simp_all add: exec_query_def exec_statement_def fun_eq_iff)

lemmas eval_simps = Sprintf_def fmt_verb_def Let_def

lemma buildUniqueValuesQuery_distinct:
  \<open>buildUniqueValuesQuery dbType tbl col limit wh False nulls =
     ''SELECT DISTINCT '' @ quoted_identifier dbType col @
     '' FROM '' @ quoted_identifier dbType tbl @
     (if wh = [] then [] else '' WHERE '' @ wh) @
     (if nulls then []
      else if wh = [] then '' WHERE '' @ quoted_identifier dbType col @ '' IS NOT NULL''
      else '' AND '' @ quoted_identifier dbType col @ '' IS NOT NULL'') @
     '' ORDER BY '' @ quoted_identifier dbType col @
     '' LIMIT '' @ Itoa limit\<close>
  by (simp add: buildUniqueValuesQuery_def quoted_identifier_def fmt_simps)

text \<open>A keyword occurs in a concatenation only inside one of the two parts, when no
  proper piece of its end starts the second part.\<close>

lemma sublist_append_split:
  assumes "\<forall>s \<in> set (suffixes kw). s \<noteq> [] \<longrightarrow> \<not> prefix s b"
  shows "sublist kw (a @ b) \<longleftrightarrow> sublist kw a \<or> sublist kw b"
proof
  assume "sublist kw (a @ b)"
  then consider "sublist kw a" | "sublist kw b"
    | xs1 xs2 where "kw = xs1 @ xs2" "suffix xs1 a" "prefix xs2 b"
    by (auto simp: sublist_append)
  then show "sublist kw a \<or> sublist kw b"
  proof cases
    case 3
    show ?thesis
    proof (cases "xs2 = []")
      case True
      with 3 show ?thesis by (auto simp: suffix_def)
    next
      case False
      have "xs2 \<in> set (suffixes kw)"
        using 3(1) by (auto simp: suffix_def)
      with assms False 3(3) show ?thesis by blast
    qed
  qed auto
next
  assume "sublist kw a \<or> sublist kw b"
  then show "sublist kw (a @ b)"
    by (auto simp: sublist_append)
qed

lemma sublist_Replace_quote:
  assumes q: "q \<notin> set kw" and kw: "kw \<noteq> []"
  shows "sublist kw (p @ Replace s [q] [q, q]) \<longleftrightarrow> sublist kw (p @ s)"
proof (induction s arbitrary: p)
  case Nil
  show ?case by simp
next
  case (Cons c s)
  have no: "\<forall>x \<in> set (suffixes kw). x \<noteq> [] \<longrightarrow> \<not> prefix x (q # r)" for r
  proof (intro ballI impI notI)
    fix x assume "x \<in> set (suffixes kw)" "x \<noteq> []" "prefix x (q # r)"
    then have "q \<in> set x" "set x \<subseteq> set kw"
      by (auto simp: prefix_Cons neq_Nil_conv suffix_def)
    with q show False by auto
  qed
  have drop: "sublist kw (q # r) \<longleftrightarrow> sublist kw r" for r
    using q kw by (cases kw) (auto simp: sublist_Cons_right)
  show ?case
  proof (cases "c = q")
    case True
    have "sublist kw (p @ q # q # Replace s [q] [q, q]) \<longleftrightarrow>
        sublist kw p \<or> sublist kw (Replace s [q] [q, q])"
      by (simp add: sublist_append_split [OF no] drop)
    also have "\<dots> \<longleftrightarrow> sublist kw p \<or> sublist kw s"
      using Cons.IH [of "[]"] by simp
    also have "\<dots> \<longleftrightarrow> sublist kw (p @ q # s)"
      by (simp add: sublist_append_split [OF no] drop)
    finally show ?thesis using True by simp
  next
    case False
    then show ?thesis using Cons.IH [of "p @ [c]"] by simp
  qed
qed

lemma set_nat_digits: "set (nat_digits n) \<subseteq> set ''0123456789''"
proof -
  define D where "D = set ''0123456789''"
  have d: "digit_char k \<in> D" if "k < 10" for k
    using that unfolding digit_char_def D_def by (intro nth_mem) simp
  have "set (nat_digits n) \<subseteq> D"
  proof (induction n rule: nat_digits.induct)
    case (1 n)
    show ?case
    proof (cases "n < 10")
      case True
      have "nat_digits n = [digit_char n]"
        using True by (subst nat_digits.simps) simp
      then show ?thesis using d [OF True] by simp
    next
      case False
      have "nat_digits n = nat_digits (n div 10) @ [digit_char (n mod 10)]"
        using False by (subst nat_digits.simps) simp
      moreover have "set (nat_digits (n div 10)) \<subseteq> D"
        using 1 False by simp
      moreover have "digit_char (n mod 10) \<in> D"
        by (rule d) simp
      ultimately show ?thesis by simp
    qed
  qed
  then show ?thesis by (simp only: D_def)
qed

lemma set_Itoa: "set (Itoa i) \<subseteq> set ''-0123456789''"
proof -
  have "set ''0123456789'' \<subseteq> set ''-0123456789''" by (simp add: subset_insertI2)
  with set_nat_digits [of "nat i"] set_nat_digits [of "nat (- i)"]
  have "set (nat_digits (nat i)) \<subseteq> set ''-0123456789''"
    "set (nat_digits (nat (- i))) \<subseteq> set ''-0123456789''"
    by (meson subset_trans)+
  then show ?thesis
    unfolding Itoa_def by (simp del: set_simps add: set_simps(2) [of "CHR ''-''"])
qed

lemma not_sublist_Itoa:
  assumes "c \<in> set kw" "c \<notin> set ''-0123456789''"
  shows "\<not> sublist kw (Itoa i)"
proof
  assume "sublist kw (Itoa i)"
  then have "set kw \<subseteq> set (Itoa i)"
    by (auto simp: sublist_def)
  with assms set_Itoa [of i] show False by blast
qed

lemma sublist_Replace_quote':
  "q \<notin> set kw \<Longrightarrow> kw \<noteq> [] \<Longrightarrow> sublist kw (Replace s [q] [q, q]) \<longleftrightarrow> sublist kw s"
  using sublist_Replace_quote [of q kw "[]" s] by simp

lemma keyword_not_in_Itoa [simp]:
  \<open>\<not> sublist ''GROUP BY'' (Itoa i)\<close> \<open>\<not> sublist ''COUNT'' (Itoa i)\<close>
  by (rule not_sublist_Itoa [of "CHR ''G''"], simp, simp)
     (rule not_sublist_Itoa [of "CHR ''C''"], simp, simp)

lemma distinct_query_without_keyword:
  assumes \<open>kw = ''GROUP BY'' \<or> kw = ''COUNT''\<close>
    and "\<not> sublist kw tbl" "\<not> sublist kw col" "\<not> sublist kw wh"
  shows "\<not> sublist kw (buildUniqueValuesQuery dbType tbl col limit wh False nulls)"
  using assms
  by (auto simp: buildUniqueValuesQuery_distinct quoted_identifier_def sublist_Cons_right
      sublist_append_split sublist_Replace_quote')

section \<open>The connection registry: register and get\<close>

text \<open>
  C5. Registering a configuration and then getting its ID returns exactly that
  configuration; registering a second configuration under the same ID overwrites the
  first, so a later get returns the second; and getting an ID that is not registered
  returns the not-found error.
\<close>

theorem register_get_last_write_wins:
  "GetDatabaseConfig (RegisterDatabaseConfig cfg cs) (ID cfg) = Inr cfg
   \<and> (ID cfg2 = ID cfg1 \<longrightarrow>
        GetDatabaseConfig (RegisterDatabaseConfig cfg2 (RegisterDatabaseConfig cfg1 cs)) (ID cfg1)
          = Inr cfg2)
   \<and> (i \<notin> dom cs \<longrightarrow>
        GetDatabaseConfig cs i = Inl (''database configuration not found for ID: '' @ i))"
  by (auto simp: GetDatabaseConfig_def RegisterDatabaseConfig_def Errorf_def fmt_verb_def
      split: option.splits)

theorem register_get_last_write_wins_witness:
  "GetDatabaseConfig
     (RegisterDatabaseConfig
        \<lparr>ID = ''pg1'', Type = ''mysql'', Host = ''h2'', Port = 3306, User = ''u'',
         Password = ''p'', Name = ''n'', Description = ''second''\<rparr>
        (RegisterDatabaseConfig
           \<lparr>ID = ''pg1'', Type = ''postgres'', Host = ''h1'', Port = 5432, User = ''u'',
            Password = ''p'', Name = ''n'', Description = ''first''\<rparr> Map.empty))
     ''pg1''
     = Inr \<lparr>ID = ''pg1'', Type = ''mysql'', Host = ''h2'', Port = 3306, User = ''u'',
         Password = ''p'', Name = ''n'', Description = ''second''\<rparr>
   \<and> GetDatabaseConfig Map.empty ''pg1'' = Inl ''database configuration not found for ID: pg1''"
  using register_get_last_write_wins
    [of "\<lparr>ID = ''pg1'', Type = ''postgres'', Host = ''h1'', Port = 5432, User = ''u'',
            Password = ''p'', Name = ''n'', Description = ''first''\<rparr>"
        Map.empty
        "\<lparr>ID = ''pg1'', Type = ''mysql'', Host = ''h2'', Port = 3306, User = ''u'',
         Password = ''p'', Name = ''n'', Description = ''second''\<rparr>"
        "\<lparr>ID = ''pg1'', Type = ''postgres'', Host = ''h1'', Port = 5432, User = ''u'',
            Password = ''p'', Name = ''n'', Description = ''first''\<rparr>"
        "''pg1''"]
  by simp

section \<open>GetStats and GetTableStats: partial failure\<close>

text \<open>
  C1. For GetStats and GetTableStats on a supported dialect, let the builder emit the
  statements \<open>queries\<close> and let exactly statement \<open>k\<close> fail when they are executed
  in order. Then the call returns success; its text is the heading followed by one
  section per statement, in the builder's order; section \<open>k\<close> is the text
  \<open>Error executing query:\<close> followed by the statement and the error, and every
  other section is the statement's result; and all the statements were passed to
  \<open>ExecuteQuery\<close>, in the builder's order.
\<close>

theorem stats_partial_failure:
  fixes useCase :: "'w UseCaseProvider"
  assumes db: "Parameters request ''database'' = Some (PString db)"
    and ty: "GetDatabaseType useCase db = Inr dbType"
    and sup: \<open>ToLower dbType = ''postgres'' \<or> ToLower dbType = ''mysql''\<close>
    and det: "detailed = optional_bool request ''detailed'' False"
  shows \<open>(\<forall>queries outs secs k.
        queries = (if ToLower dbType = ''postgres'' then getPostgresStatsQueries detailed
                   else getMySQLStatsQueries detailed) \<longrightarrow>
        outs = exec_outcomes useCase db queries st \<longrightarrow>
        secs = map2 section_text queries outs \<longrightarrow>
        fails_only_at k outs \<longrightarrow>
          fst (DbStatsTool_HandleRequest useCase request st)
            = Inr (TextResponse (''# Database Statistics for '' @ db @ '' ('' @ dbType @
                     '')\<newline>\<newline>'' @ concat secs))
          \<and> sections_report_failure_at k queries outs secs
          \<and> snd (snd (DbStatsTool_HandleRequest useCase request st))
              = snd st @ map (\<lambda>query. QueryCall db query []) queries)
     \<and> (\<forall>tbl queries outs secs k.
        Parameters request ''table'' = Some (PString tbl) \<longrightarrow>
        queries = (if ToLower dbType = ''postgres'' then getPostgresTableStatsQueries tbl detailed
                   else getMySQLTableStatsQueries tbl detailed) \<longrightarrow>
        outs = exec_outcomes useCase db queries st \<longrightarrow>
        secs = map2 section_text queries outs \<longrightarrow>
        fails_only_at k outs \<longrightarrow>
          fst (TableStatsTool_HandleRequest useCase request st)
            = Inr (TextResponse (''# Table Statistics for '' @ db @ ''.'' @ tbl @
                     ''\<newline>\<newline>'' @ concat secs))
          \<and> sections_report_failure_at k queries outs secs
          \<and> snd (snd (TableStatsTool_HandleRequest useCase request st))
              = snd st @ map (\<lambda>query. QueryCall db query []) queries)\<close>
proof (intro conjI allI impI)
  fix queries outs secs k
  assume qs: \<open>queries = (if ToLower dbType = ''postgres'' then getPostgresStatsQueries detailed
                   else getMySQLStatsQueries detailed)\<close>
    and outs: "outs = exec_outcomes useCase db queries st"
    and secs: "secs = map2 section_text queries outs"
    and only: "fails_only_at k outs"
  let ?heading = \<open>''# Database Statistics for '' @ db @ '' ('' @ dbType @ '')\<newline>\<newline>''\<close>
  obtain results st' where loop: "stats_loop useCase db queries ?heading st = (results, st')"
    by (cases "stats_loop useCase db queries ?heading st")
  have run: "DbStatsTool_HandleRequest useCase request st = (Inr (TextResponse results), st')"
    using sup
  proof
    assume \<open>ToLower dbType = ''postgres''\<close>
    then show ?thesis
      using db ty loop
      by (simp add: DbStatsTool_HandleRequest_def createTextResponse_def fmt_simps qs det)
  next
    assume \<open>ToLower dbType = ''mysql''\<close>
    then show ?thesis
      using db ty loop
      by (simp add: DbStatsTool_HandleRequest_def createTextResponse_def fmt_simps qs det)
  qed
  have results: "results = ?heading @ concat secs"
    using stats_loop_report [of useCase db queries ?heading st]
    by (simp only: loop fst_conv outs secs)
  have calls: "snd st' = snd st @ map (\<lambda>query. QueryCall db query []) queries"
    using stats_loop_calls [of useCase db queries ?heading st]
    by (simp only: loop snd_conv)
  show \<open>fst (DbStatsTool_HandleRequest useCase request st)
            = Inr (TextResponse (''# Database Statistics for '' @ db @ '' ('' @ dbType @
                     '')\<newline>\<newline>'' @ concat secs))\<close>
    by (simp only: run fst_conv results append_assoc)
  show "sections_report_failure_at k queries outs secs"
    unfolding secs using only by (intro sections_of_single_failure) (simp add: outs)
  show "snd (snd (DbStatsTool_HandleRequest useCase request st))
              = snd st @ map (\<lambda>query. QueryCall db query []) queries"
    by (simp only: run snd_conv calls)
next
  fix tbl queries outs secs k
  assume tbl: "Parameters request ''table'' = Some (PString tbl)"
    and qs: \<open>queries = (if ToLower dbType = ''postgres'' then getPostgresTableStatsQueries tbl detailed
                   else getMySQLTableStatsQueries tbl detailed)\<close>
    and outs: "outs = exec_outcomes useCase db queries st"
    and secs: "secs = map2 section_text queries outs"
    and only: "fails_only_at k outs"
  let ?heading = \<open>''# Table Statistics for '' @ db @ ''.'' @ tbl @ ''\<newline>\<newline>''\<close>
  obtain results st' where loop: "stats_loop useCase db queries ?heading st = (results, st')"
    by (cases "stats_loop useCase db queries ?heading st")
  have run: "TableStatsTool_HandleRequest useCase request st = (Inr (TextResponse results), st')"
    using sup
  proof
    assume \<open>ToLower dbType = ''postgres''\<close>
    then show ?thesis
      using db ty tbl loop
      by (simp add: TableStatsTool_HandleRequest_def createTextResponse_def fmt_simps qs det)
  next
    assume \<open>ToLower dbType = ''mysql''\<close>
    then show ?thesis
      using db ty tbl loop
      by (simp add: TableStatsTool_HandleRequest_def createTextResponse_def fmt_simps qs det)
  qed
  have results: "results = ?heading @ concat secs"
    using stats_loop_report [of useCase db queries ?heading st]
    by (simp only: loop fst_conv outs secs)
  have calls: "snd st' = snd st @ map (\<lambda>query. QueryCall db query []) queries"
    using stats_loop_calls [of useCase db queries ?heading st]
    by (simp only: loop snd_conv)
  show \<open>fst (TableStatsTool_HandleRequest useCase request st)
            = Inr (TextResponse (''# Table Statistics for '' @ db @ ''.'' @ tbl @
                     ''\<newline>\<newline>'' @ concat secs))\<close>
    by (simp only: run fst_conv results append_assoc)
  show "sections_report_failure_at k queries outs secs"
    unfolding secs using only by (intro sections_of_single_failure) (simp add: outs)
  show "snd (snd (TableStatsTool_HandleRequest useCase request st))
              = snd st @ map (\<lambda>query. QueryCall db query []) queries"
    by (simp only: run snd_conv calls)
qed


theorem stats_partial_failure_witness:
  \<open>fails_only_at 1 (exec_outcomes (demo_useCase ''mysql'' 1) ''shop'' (getMySQLStatsQueries False) (0, []))
   \<and> fst (DbStatsTool_HandleRequest (demo_useCase ''mysql'' 1)
        (request_of [(''database'', PString ''shop''), (''table'', PString ''orders'')]) (0, []))
     = Inr (TextResponse
         (''# Database Statistics for shop (mysql)\<newline>\<newline>'' @
          ''rows of 0\<newline>\<newline>'' @
          ''Error executing query: '' @ getMySQLStatsQueries False ! 1 @
             ''\<newline>connection lost\<newline>\<newline>'' @
          ''rows of 2\<newline>\<newline>''))
   \<and> fst (TableStatsTool_HandleRequest (demo_useCase ''mysql'' 1)
        (request_of [(''database'', PString ''shop''), (''table'', PString ''orders'')]) (0, []))
     = Inr (TextResponse
         (''# Table Statistics for shop.orders\<newline>\<newline>'' @
          ''rows of 0\<newline>\<newline>'' @
          ''Error executing query: '' @ getMySQLTableStatsQueries ''orders'' False ! 1 @
             ''\<newline>connection lost\<newline>\<newline>'' @
          ''rows of 2\<newline>\<newline>''))\<close>
proof -
  let ?uc = \<open>demo_useCase ''mysql'' 1\<close>
  let ?req = \<open>request_of [(''database'', PString ''shop''), (''table'', PString ''orders'')]\<close>
  have db: \<open>Parameters ?req ''database'' = Some (PString ''shop'')\<close>
    and tbl: \<open>Parameters ?req ''table'' = Some (PString ''orders'')\<close>
    by (simp_all add: request_of_def)
  have ty: \<open>GetDatabaseType ?uc ''shop'' = Inr ''mysql''\<close>
    by (simp add: demo_useCase_def)
  have low: \<open>ToLower ''mysql'' = ''mysql''\<close>
    by (simp add: ToLower_def to_lower_char_def)
  have sup: \<open>ToLower ''mysql'' = ''postgres'' \<or> ToLower ''mysql'' = ''mysql''\<close>
    by (simp add: low)
  have det: \<open>False = optional_bool ?req ''detailed'' False\<close>
    by (simp add: demo_simps)
  have outs3: "exec_outcomes ?uc db [a, b, c] (0, []) =
      [Inr ''rows of 0'', Inl ''connection lost'', Inr ''rows of 2'']" for db a b c
    by (simp add: exec_query_def demo_useCase_def Itoa_def nat_digits.simps digit_char_def)
  obtain a b c where qs: "getMySQLStatsQueries False = [a, b, c]"
    by (simp add: getMySQLStatsQueries_def)
  obtain a' b' c' where tqs: \<open>getMySQLTableStatsQueries ''orders'' False = [a', b', c']\<close>
    by (simp add: getMySQLTableStatsQueries_def Let_def)
  have only: \<open>fails_only_at 1 (exec_outcomes ?uc ''shop'' (getMySQLStatsQueries False) (0, []))\<close>
    unfolding qs outs3 by (auto simp: fails_only_at_def less_Suc_eq)
  have tonly: \<open>fails_only_at 1
      (exec_outcomes ?uc ''shop'' (getMySQLTableStatsQueries ''orders'' False) (0, []))\<close>
    unfolding tqs outs3 by (auto simp: fails_only_at_def less_Suc_eq)
  have pick: \<open>(if ToLower ''mysql'' = ''postgres'' then x else y) = y\<close> for x y :: "string list"
    by (simp add: low)
  note inst = stats_partial_failure [OF db ty sup det, of "(0, [])"]
  from inst [THEN conjunct1, rule_format, OF refl refl refl, unfolded pick, OF only]
  have one: \<open>fst (DbStatsTool_HandleRequest ?uc ?req (0, []))
     = Inr (TextResponse
         (''# Database Statistics for shop (mysql)\<newline>\<newline>'' @
          ''rows of 0\<newline>\<newline>'' @
          ''Error executing query: '' @ getMySQLStatsQueries False ! 1 @
             ''\<newline>connection lost\<newline>\<newline>'' @
          ''rows of 2\<newline>\<newline>''))\<close>
    unfolding qs outs3 by simp
  from inst [THEN conjunct2, rule_format, OF tbl refl refl refl, unfolded pick, OF tonly]
  have two: \<open>fst (TableStatsTool_HandleRequest ?uc ?req (0, []))
     = Inr (TextResponse
         (''# Table Statistics for shop.orders\<newline>\<newline>'' @
          ''rows of 0\<newline>\<newline>'' @
          ''Error executing query: '' @ getMySQLTableStatsQueries ''orders'' False ! 1 @
             ''\<newline>connection lost\<newline>\<newline>'' @
          ''rows of 2\<newline>\<newline>''))\<close>
    unfolding tqs outs3 by simp
  from only one two show ?thesis by blast
qed

section \<open>Unsupported dialects\<close>

text \<open>
  C2 claims that every capability fails, before any execution, on a connection whose
  dialect is neither postgres nor mysql. ExecuteSQL never resolves the dialect: on a
  connection of dialect \<open>sqlite\<close> it passes its statement to the executor and
  succeeds.
\<close>

theorem unsupported_dialect_counterexample:
  \<open>GetDatabaseType (demo_useCase ''sqlite'' 7) ''shop'' = Inr ''sqlite''
   \<and> ToLower ''sqlite'' \<noteq> ''postgres'' \<and> ToLower ''sqlite'' \<noteq> ''mysql''
   \<and> GenericSQLTool_HandleRequest (demo_useCase ''sqlite'' 7)
        (request_of [(''sql'', PString ''SELECT 1''), (''database'', PString ''shop'')]) (0, [])
     = (Inr (TextResponse ''rows of 0''), (1, [QueryCall ''shop'' ''SELECT 1'' []]))\<close>
  by (simp add: demo_simps GenericSQLTool_HandleRequest_def exec_query_def HasPrefix_def
      TrimSpace_def ToUpper_def to_upper_char_def is_space_def ToLower_def to_lower_char_def
      createTextResponse_def Itoa_def nat_digits.simps digit_char_def)

text \<open>
  C2, amended. For GetStats, GetTableStats, GetIndexes, GetConstraints, GetViews,
  GetTypes and GetSchemas: when \<open>GetDatabaseType\<close> returns an error, or a dialect that
  in lower case is neither \<open>postgres\<close> nor \<open>mysql\<close>, the call returns an error, and the
  world and the list of executor calls are unchanged. For GetSampleData and
  GetUniqueValues the same holds when \<open>GetDatabaseType\<close> returns an error. ExecuteSQL
  does not resolve the dialect: its result is the same whatever \<open>GetDatabaseType\<close> is.
\<close>

theorem unsupported_dialect_fails_before_execution:
  fixes useCase :: "'w UseCaseProvider"
  assumes db: "Parameters request ''database'' = Some (PString db)"
  shows \<open>((case GetDatabaseType useCase db of
             Inl err \<Rightarrow> True
           | Inr dbType \<Rightarrow> ToLower dbType \<noteq> ''postgres'' \<and> ToLower dbType \<noteq> ''mysql'') \<longrightarrow>
          fails_without_executing DbStatsTool_HandleRequest useCase request st
        \<and> fails_without_executing TableStatsTool_HandleRequest useCase request st
        \<and> fails_without_executing GetIndexesTool_HandleRequest useCase request st
        \<and> fails_without_executing GetConstraintsTool_HandleRequest useCase request st
        \<and> fails_without_executing GetViewsTool_HandleRequest useCase request st
        \<and> fails_without_executing GetTypesTool_HandleRequest useCase request st
        \<and> fails_without_executing GetSchemasTool_HandleRequest useCase request st)
     \<and> (isl (GetDatabaseType useCase db) \<longrightarrow>
          fails_without_executing GetSampleDataTool_HandleRequest useCase request st
        \<and> fails_without_executing GetUniqueValuesTool_HandleRequest useCase request st)
     \<and> GenericSQLTool_HandleRequest (useCase\<lparr>GetDatabaseType := resolve\<rparr>) request st
         = GenericSQLTool_HandleRequest useCase request st\<close>
proof (intro conjI impI)
  assume un: \<open>case GetDatabaseType useCase db of
             Inl err \<Rightarrow> True
           | Inr dbType \<Rightarrow> ToLower dbType \<noteq> ''postgres'' \<and> ToLower dbType \<noteq> ''mysql''\<close>
  then consider (err) e where "GetDatabaseType useCase db = Inl e"
    | (other) dbType where "GetDatabaseType useCase db = Inr dbType"
        \<open>ToLower dbType \<noteq> ''postgres''\<close> \<open>ToLower dbType \<noteq> ''mysql''\<close>
    by (cases "GetDatabaseType useCase db") auto
  note resolved = this
  show "fails_without_executing DbStatsTool_HandleRequest useCase request st"
    using db
    by (cases rule: resolved)
      (simp_all add: fails_without_executing_def DbStatsTool_HandleRequest_def Let_def
        split: option.splits)
  show "fails_without_executing TableStatsTool_HandleRequest useCase request st"
    using db
    by (cases rule: resolved)
      (simp_all add: fails_without_executing_def TableStatsTool_HandleRequest_def Let_def
        split: option.splits)
  show "fails_without_executing GetIndexesTool_HandleRequest useCase request st"
    using db
    by (cases rule: resolved)
      (simp_all add: fails_without_executing_def GetIndexesTool_HandleRequest_def Let_def
        split: option.splits)
  show "fails_without_executing GetConstraintsTool_HandleRequest useCase request st"
    using db
    by (cases rule: resolved)
      (simp_all add: fails_without_executing_def GetConstraintsTool_HandleRequest_def Let_def
        split: option.splits)
  show "fails_without_executing GetViewsTool_HandleRequest useCase request st"
    using db
    by (cases rule: resolved)
      (simp_all add: fails_without_executing_def GetViewsTool_HandleRequest_def Let_def
        split: option.splits)
  show "fails_without_executing GetTypesTool_HandleRequest useCase request st"
    using db
    by (cases rule: resolved)
      (simp_all add: fails_without_executing_def GetTypesTool_HandleRequest_def Let_def
        split: option.splits)
  show "fails_without_executing GetSchemasTool_HandleRequest useCase request st"
    using db
    by (cases rule: resolved)
      (simp_all add: fails_without_executing_def GetSchemasTool_HandleRequest_def Let_def
        split: option.splits)
next
  assume err: "isl (GetDatabaseType useCase db)"
  show "fails_without_executing GetSampleDataTool_HandleRequest useCase request st"
    using db err
    by (auto simp: fails_without_executing_def GetSampleDataTool_HandleRequest_def Let_def
        isl_def split: option.splits)
  show "fails_without_executing GetUniqueValuesTool_HandleRequest useCase request st"
    using db err
    by (auto simp: fails_without_executing_def GetUniqueValuesTool_HandleRequest_def Let_def
        isl_def split: option.splits)
next
  show "GenericSQLTool_HandleRequest (useCase\<lparr>GetDatabaseType := resolve\<rparr>) request st
         = GenericSQLTool_HandleRequest useCase request st"
    unfolding GenericSQLTool_HandleRequest_def exec_ignores_resolver ..
qed

theorem unsupported_dialect_fails_before_execution_witness:
  \<open>fails_without_executing DbStatsTool_HandleRequest (demo_useCase ''sqlite'' 7)
      (request_of [(''database'', PString ''shop''), (''table'', PString ''orders'')]) (0, [])
   \<and> fails_without_executing TableStatsTool_HandleRequest (demo_useCase ''sqlite'' 7)
      (request_of [(''database'', PString ''shop''), (''table'', PString ''orders'')]) (0, [])
   \<and> fails_without_executing GetIndexesTool_HandleRequest (demo_useCase ''sqlite'' 7)
      (request_of [(''database'', PString ''shop''), (''table'', PString ''orders'')]) (0, [])
   \<and> fails_without_executing GetConstraintsTool_HandleRequest (demo_useCase ''sqlite'' 7)
      (request_of [(''database'', PString ''shop''), (''table'', PString ''orders'')]) (0, [])
   \<and> fails_without_executing GetViewsTool_HandleRequest (demo_useCase ''sqlite'' 7)
      (request_of [(''database'', PString ''shop''), (''table'', PString ''orders'')]) (0, [])
   \<and> fails_without_executing GetTypesTool_HandleRequest (demo_useCase ''sqlite'' 7)
      (request_of [(''database'', PString ''shop''), (''table'', PString ''orders'')]) (0, [])
   \<and> fails_without_executing GetSchemasTool_HandleRequest (demo_useCase ''sqlite'' 7)
      (request_of [(''database'', PString ''shop''), (''table'', PString ''orders'')]) (0, [])\<close>
  using unsupported_dialect_fails_before_execution
    [of \<open>request_of [(''database'', PString ''shop''), (''table'', PString ''orders'')]\<close>
        \<open>''shop''\<close> \<open>demo_useCase ''sqlite'' 7\<close> \<open>(0, [])\<close>]
  by (simp add: request_of_def demo_useCase_def ToLower_def to_lower_char_def)

section \<open>Identifier escaping in the MySQL catalog builders\<close>

text \<open>
  C3 claims that every builder doubles the quote characters of a caller's identifier
  so that none ends the quoted region. The MySQL catalog builders put the name
  between single quotes but double its backquotes (\<open>getMySQLIndexesQuery\<close>,
  \<open>getMySQLConstraintsQuery\<close>, and in the same way \<open>getMySQLViewsQuery\<close> and
  \<open>getMySQLTableStatsQueries\<close>), under the comment "Escape table name for safety".
  For the table name \<open>a'b\<close> the MySQL builders emit \<open>table_name = 'a'b'\<close>: the
  quote inside the name ends the literal. The PostgreSQL builder of the same
  capability doubles it and emits \<open>'a''b'\<close>.
\<close>

theorem mysql_table_filter_keeps_single_quote:
  \<open>getMySQLIndexesQuery (''a\'b'') False =
     ''\<newline>'' @
     ''SELECT \<newline>'' @
     ''    table_name,\<newline>'' @
     ''    index_name,\<newline>'' @
     ''    GROUP_CONCAT(column_name ORDER BY seq_in_index) AS column_names,\<newline>'' @
     ''    CASE \<newline>'' @
     ''        WHEN index_name = \'PRIMARY\' THEN \'PRIMARY KEY\'\<newline>'' @
     ''        WHEN non_unique = 0 THEN \'UNIQUE\'\<newline>'' @
     ''        ELSE \'INDEX\'\<newline>'' @
     ''    END AS constraint_type,\<newline>'' @
     ''    index_type\<newline>'' @
     ''FROM information_schema.statistics\<newline>'' @
     ''WHERE table_schema = DATABASE() AND table_name = \'a\'b\'\<newline>'' @
     ''GROUP BY table_name, index_name, non_unique, index_type\<newline>'' @
     ''ORDER BY table_name, index_name;''
   \<and> getMySQLConstraintsQuery (''a\'b'') [] =
     ''\<newline>'' @
     ''SELECT \<newline>'' @
     ''    tc.table_schema,\<newline>'' @
     ''    tc.table_name,\<newline>'' @
     ''    tc.constraint_name,\<newline>'' @
     ''    CASE \<newline>'' @
     ''        WHEN tc.constraint_type = \'PRIMARY KEY\' THEN \'PRIMARY KEY\'\<newline>'' @
     ''        WHEN tc.constraint_type = \'UNIQUE\' THEN \'UNIQUE\'\<newline>'' @
     ''        WHEN tc.constraint_type = \'FOREIGN KEY\' THEN \'FOREIGN KEY\'\<newline>'' @
     ''        ELSE tc.constraint_type\<newline>'' @
     ''    END AS constraint_type,\<newline>'' @
     ''    GROUP_CONCAT(kcu.column_name ORDER BY kcu.ordinal_position) AS column_names,\<newline>'' @
     ''    kcu.referenced_table_name AS referenced_table,\<newline>'' @
     ''    GROUP_CONCAT(kcu.referenced_column_name ORDER BY kcu.ordinal_position) AS referenced_columns\<newline>'' @
     ''FROM information_schema.table_constraints tc\<newline>'' @
     ''JOIN information_schema.key_column_usage kcu\<newline>'' @
     ''    ON tc.constraint_name = kcu.constraint_name\<newline>'' @
     ''    AND tc.table_schema = kcu.table_schema\<newline>'' @
     ''    AND tc.table_name = kcu.table_name\<newline>'' @
     ''WHERE tc.table_schema = DATABASE() AND tc.table_name = \'a\'b\'\<newline>'' @
     ''GROUP BY tc.table_schema, tc.table_name, tc.constraint_name, tc.constraint_type, kcu.referenced_table_name\<newline>'' @
     ''ORDER BY tc.table_name, tc.constraint_name;''
   \<and> getPostgresIndexesQuery (''a\'b'') False =
     ''\<newline>'' @
     ''SELECT \<newline>'' @
     ''    t.relname AS table_name,\<newline>'' @
     ''    i.relname AS index_name,\<newline>'' @
     ''    a.amname AS index_type,\<newline>'' @
     ''    CASE \<newline>'' @
     ''        WHEN ix.indisprimary THEN \'PRIMARY KEY\'\<newline>'' @
     ''        WHEN ix.indisunique THEN \'UNIQUE\'\<newline>'' @
     ''        ELSE \'INDEX\'\<newline>'' @
     ''    END AS constraint_type,\<newline>'' @
     ''    array_to_string(array_agg(pg_get_indexdef(ix.indexrelid, k + 1, true)), \', \') AS column_names\<newline>'' @
     ''FROM pg_index ix\<newline>'' @
     ''JOIN pg_class i ON i.oid = ix.indexrelid\<newline>'' @
     ''JOIN pg_class t ON t.oid = ix.indrelid\<newline>'' @
     ''JOIN pg_namespace n ON n.oid = t.relnamespace\<newline>'' @
     ''JOIN pg_am a ON a.oid = i.relam,\<newline>'' @
     ''generate_series(0, array_length(ix.indkey, 1) - 1) AS k\<newline>'' @
     ''WHERE n.nspname = \'public\' AND t.relname = \'a'' @ [CHR 0x27] @ ''\'b\'\<newline>'' @
     ''GROUP BY t.relname, i.relname, a.amname, ix.indisprimary, ix.indisunique\<newline>'' @
     ''ORDER BY t.relname, i.relname;''\<close>
  by (simp add: getMySQLIndexesQuery_def getMySQLConstraintsQuery_def
      getPostgresIndexesQuery_def eval_simps)

section \<open>ExecuteSQL: classification of the statement\<close>



section \<open>GetSampleData: random order and the default limit\<close>

text \<open>
  C6. For GetSampleData with \<open>random = true\<close> and no limit supplied, the handler
  passes exactly one query to the executor; on a mysql connection it ends with
  \<open>ORDER BY RAND() LIMIT 10\<close>, on a postgres connection with
  \<open>ORDER BY RANDOM() LIMIT 10\<close>: the dialect's random function and the default
  limit 10.
\<close>

theorem sample_data_random_default_limit:
  assumes "Parameters request ''database'' = Some (PString db)"
    and "Parameters request ''table'' = Some (PString tbl)"
    and "Parameters request ''random'' = Some (PBool True)"
    and "Parameters request ''limit'' = None"
    and "GetDatabaseType useCase db = Inr dbType"
  shows \<open>\<exists>query.
      snd (snd (GetSampleDataTool_HandleRequest useCase request st))
        = snd st @ [QueryCall db query []]
      \<and> query = buildSampleDataQuery dbType tbl 10 (optional_string request ''where'' [])
                  (optional_string request ''order_by'' []) True
      \<and> (ToLower dbType = ''mysql'' \<longrightarrow> suffix '' ORDER BY RAND() LIMIT 10'' query)
      \<and> (ToLower dbType = ''postgres'' \<longrightarrow> suffix '' ORDER BY RANDOM() LIMIT 10'' query)\<close>
proof -
  let ?q = \<open>buildSampleDataQuery dbType tbl 10 (optional_string request ''where'' [])
                  (optional_string request ''order_by'' []) True\<close>
  have run: "snd (snd (GetSampleDataTool_HandleRequest useCase request st))
        = snd st @ [QueryCall db ?q []]"
    using assms
    by (simp add: GetSampleDataTool_HandleRequest_def optional_int_def optional_bool_def
        exec_query_def Let_def split: prod.splits sum.splits)
  have my: \<open>ToLower dbType = ''mysql'' \<Longrightarrow> suffix '' ORDER BY RAND() LIMIT 10'' ?q\<close>
    by (simp add: buildSampleDataQuery_random Itoa_10 suffix_def)
  have pg: \<open>ToLower dbType = ''postgres'' \<Longrightarrow> suffix '' ORDER BY RANDOM() LIMIT 10'' ?q\<close>
    by (simp add: buildSampleDataQuery_random Itoa_10 suffix_def)
  show ?thesis using run my pg by blast
qed


theorem sample_data_random_default_limit_witness:
  \<open>snd (snd (GetSampleDataTool_HandleRequest (demo_useCase ''mysql'' 7)
       (request_of [(''database'', PString ''shop''), (''table'', PString ''orders''),
                    (''random'', PBool True)]) (0, [])))
     = [QueryCall ''shop'' ''SELECT * FROM `orders` ORDER BY RAND() LIMIT 10'' []]
   \<and> suffix '' ORDER BY RAND() LIMIT 10'' ''SELECT * FROM `orders` ORDER BY RAND() LIMIT 10''\<close>
  using sample_data_random_default_limit
    [of \<open>request_of [(''database'', PString ''shop''), (''table'', PString ''orders''),
                    (''random'', PBool True)]\<close>
        \<open>''shop''\<close> \<open>''orders''\<close> \<open>demo_useCase ''mysql'' 7\<close> \<open>''mysql''\<close> \<open>(0, [])\<close>]
  by (simp add: demo_simps buildSampleDataQuery_random ToLower_def to_lower_char_def Itoa_10)

section \<open>GetUniqueValues without counts\<close>

text \<open>
  C7. For GetUniqueValues with \<open>include_counts = false\<close> the handler passes exactly one
  query to the executor, of the form
  \<open>SELECT DISTINCT <column> FROM <table> [WHERE ...] ORDER BY <column> LIMIT <n>\<close>,
  where \<open><column>\<close> and \<open><table>\<close> are the quoted identifiers, the WHERE part holds
  the caller's predicate and the NULL exclusion when asked for, and \<open>n\<close> is 100 when
  no limit is supplied. The builder adds no GROUP BY clause and no COUNT aggregate:
  the query contains the text \<open>GROUP BY\<close> (or \<open>COUNT\<close>) only if the caller's table,
  column or predicate text does.
\<close>

theorem unique_values_without_counts:
  assumes db: "Parameters request ''database'' = Some (PString db)"
    and tbl: "Parameters request ''table'' = Some (PString tbl)"
    and col: "Parameters request ''column'' = Some (PString col)"
    and cnt: "Parameters request ''include_counts'' = Some (PBool False)"
    and ty: "GetDatabaseType useCase db = Inr dbType"
    and wh: "wh = optional_string request ''where'' []"
    and nulls: "nulls = optional_bool request ''include_nulls'' True"
    and limit: "limit = optional_int request ''limit'' 100"
  shows \<open>\<exists>query.
      snd (snd (GetUniqueValuesTool_HandleRequest useCase request st))
        = snd st @ [QueryCall db query []]
      \<and> query =
          ''SELECT DISTINCT '' @ quoted_identifier dbType col @
          '' FROM '' @ quoted_identifier dbType tbl @
          (if wh = [] then [] else '' WHERE '' @ wh) @
          (if nulls then []
           else if wh = [] then '' WHERE '' @ quoted_identifier dbType col @ '' IS NOT NULL''
           else '' AND '' @ quoted_identifier dbType col @ '' IS NOT NULL'') @
          '' ORDER BY '' @ quoted_identifier dbType col @
          '' LIMIT '' @ Itoa limit
      \<and> (Parameters request ''limit'' = None \<longrightarrow> limit = 100)
      \<and> (\<forall>kw \<in> {''GROUP BY'', ''COUNT''}.
            \<not> sublist kw tbl \<and> \<not> sublist kw col \<and> \<not> sublist kw wh \<longrightarrow> \<not> sublist kw query)\<close>
proof -
  let ?q = "buildUniqueValuesQuery dbType tbl col limit wh False nulls"
  have run: "snd (snd (GetUniqueValuesTool_HandleRequest useCase request st))
        = snd st @ [QueryCall db ?q []]"
    using db tbl col cnt ty
    by (simp add: GetUniqueValuesTool_HandleRequest_def optional_bool_def [of _ "''include_counts''"]
        wh nulls limit exec_query_def Let_def split: prod.splits sum.splits)
  have lim: "Parameters request ''limit'' = None \<longrightarrow> limit = 100"
    by (simp add: limit optional_int_def)
  have free: \<open>\<forall>kw \<in> {''GROUP BY'', ''COUNT''}.
            \<not> sublist kw tbl \<and> \<not> sublist kw col \<and> \<not> sublist kw wh \<longrightarrow> \<not> sublist kw ?q\<close>
    using distinct_query_without_keyword [of _ tbl col wh dbType limit nulls] by blast
  show ?thesis
  proof (intro exI conjI)
    show "snd (snd (GetUniqueValuesTool_HandleRequest useCase request st))
        = snd st @ [QueryCall db ?q []]"
      by (rule run)
    show \<open>?q =
          ''SELECT DISTINCT '' @ quoted_identifier dbType col @
          '' FROM '' @ quoted_identifier dbType tbl @
          (if wh = [] then [] else '' WHERE '' @ wh) @
          (if nulls then []
           else if wh = [] then '' WHERE '' @ quoted_identifier dbType col @ '' IS NOT NULL''
           else '' AND '' @ quoted_identifier dbType col @ '' IS NOT NULL'') @
          '' ORDER BY '' @ quoted_identifier dbType col @
          '' LIMIT '' @ Itoa limit\<close>
      by (rule buildUniqueValuesQuery_distinct)
    show "Parameters request ''limit'' = None \<longrightarrow> limit = 100"
      by (rule lim)
    show \<open>\<forall>kw \<in> {''GROUP BY'', ''COUNT''}.
            \<not> sublist kw tbl \<and> \<not> sublist kw col \<and> \<not> sublist kw wh \<longrightarrow> \<not> sublist kw ?q\<close>
      by (rule free)
  qed
qed

theorem unique_values_without_counts_witness:
  \<open>snd (snd (GetUniqueValuesTool_HandleRequest (demo_useCase ''postgres'' 7)
       (request_of [(''database'', PString ''shop''), (''table'', PString ''orders''),
                    (''column'', PString ''status''), (''include_counts'', PBool False),
                    (''where'', PString ''total > 10'')]) (0, [])))
     = [QueryCall ''shop''
          ''SELECT DISTINCT "status" FROM "orders" WHERE total > 10 ORDER BY "status" LIMIT 100'' []]
   \<and> \<not> sublist ''GROUP BY''
         ''SELECT DISTINCT "status" FROM "orders" WHERE total > 10 ORDER BY "status" LIMIT 100''
   \<and> \<not> sublist ''COUNT''
         ''SELECT DISTINCT "status" FROM "orders" WHERE total > 10 ORDER BY "status" LIMIT 100''\<close>
proof -
  let ?req = \<open>request_of [(''database'', PString ''shop''), (''table'', PString ''orders''),
                    (''column'', PString ''status''), (''include_counts'', PBool False),
                    (''where'', PString ''total > 10'')]\<close>
  have wh: \<open>''total > 10'' = optional_string ?req ''where'' []\<close>
    and nulls: \<open>True = optional_bool ?req ''include_nulls'' True\<close>
    and limit: \<open>100 = optional_int ?req ''limit'' 100\<close>
    by (simp_all add: demo_simps)
  have q: \<open>quoted_identifier ''postgres'' ''status'' = ''"status"''\<close>
    \<open>quoted_identifier ''postgres'' ''orders'' = ''"orders"''\<close>
    by (simp_all add: quoted_identifier_def ToLower_def to_lower_char_def)
  have free: \<open>\<not> sublist kw ''orders'' \<and> \<not> sublist kw ''status'' \<and> \<not> sublist kw ''total > 10''\<close>
    if \<open>kw \<in> {''GROUP BY'', ''COUNT''}\<close> for kw
    using that by (auto simp: sublist_Cons_right)
  from unique_values_without_counts
    [of ?req \<open>''shop''\<close> \<open>''orders''\<close> \<open>''status''\<close> \<open>demo_useCase ''postgres'' 7\<close>
        \<open>''postgres''\<close> \<open>''total > 10''\<close> True 100 \<open>(0, [])\<close>, OF _ _ _ _ _ wh nulls limit]
  show ?thesis
    using free by (simp add: request_of_def demo_useCase_def q Itoa_100)
qed

section \<open>GetTypes on a mysql connection\<close>

text \<open>
  C9. For GetTypes on a mysql connection the call succeeds with a fixed informational
  text, and the world and the list of executor calls are unchanged: no SQL statement
  is executed, and no unsupported-dialect error is produced.
\<close>

theorem types_mysql_informational:
  assumes "Parameters request ''database'' = Some (PString db)"
    and "GetDatabaseType useCase db = Inr dbType"
    and "ToLower dbType = ''mysql''"
  shows \<open>GetTypesTool_HandleRequest useCase request st =
     (Inr (TextResponse ''MySQL does not support custom data types in the same way as PostgreSQL. It only has built-in data types.''), st)\<close>
  using assms
  by (simp add: GetTypesTool_HandleRequest_def createTextResponse_def Let_def)

theorem types_mysql_informational_witness:
  \<open>GetTypesTool_HandleRequest (demo_useCase ''MySQL'' 0)
     (request_of [(''database'', PString ''shop''), (''type_name'', PString ''mood'')]) (0, []) =
     (Inr (TextResponse ''MySQL does not support custom data types in the same way as PostgreSQL. It only has built-in data types.''), (0, []))\<close>
  using types_mysql_informational
    [of \<open>request_of [(''database'', PString ''shop''), (''type_name'', PString ''mood'')]\<close>
        \<open>''shop''\<close> \<open>demo_useCase ''MySQL'' 0\<close> \<open>''MySQL''\<close> \<open>(0, [])\<close>]
  by (simp add: demo_simps ToLower_def to_lower_char_def)

section \<open>GetSampleData: order_by is ignored when random is set\<close>

text \<open>
  C10. For GetSampleData with \<open>random = true\<close> the caller's \<open>order_by\<close> is ignored: the
  query is the one built with no \<open>order_by\<close> at all (so the \<open>order_by\<close> text occurs in
  it only where that query has it already), it orders by the dialect's random
  function, and the whole call is the same whatever the \<open>order_by\<close> parameter is.
  With \<open>random = false\<close> a non-empty \<open>order_by\<close> becomes the ORDER BY clause.
\<close>

theorem sample_data_random_ignores_order_by:
  \<open>buildSampleDataQuery dbType tbl limit wh ob True
     = buildSampleDataQuery dbType tbl limit wh [] True
   \<and> suffix ((if ToLower dbType = ''postgres'' then '' ORDER BY RANDOM()'' else '' ORDER BY RAND()'')
              @ '' LIMIT '' @ Itoa limit)
        (buildSampleDataQuery dbType tbl limit wh ob True)
   \<and> (Parameters request ''random'' = Some (PBool True) \<longrightarrow>
        GetSampleDataTool_HandleRequest useCase
          (request\<lparr>Parameters := (Parameters request)(''order_by'' := v)\<rparr>) st
        = GetSampleDataTool_HandleRequest useCase request st)
   \<and> (ob \<noteq> [] \<longrightarrow>
        suffix ('' ORDER BY '' @ ob @ '' LIMIT '' @ Itoa limit)
          (buildSampleDataQuery dbType tbl limit wh ob False))\<close>
proof (intro conjI impI)
  show \<open>buildSampleDataQuery dbType tbl limit wh ob True
     = buildSampleDataQuery dbType tbl limit wh [] True\<close>
    by (simp only: buildSampleDataQuery_random)
next
  show \<open>suffix ((if ToLower dbType = ''postgres'' then '' ORDER BY RANDOM()'' else '' ORDER BY RAND()'')
              @ '' LIMIT '' @ Itoa limit)
        (buildSampleDataQuery dbType tbl limit wh ob True)\<close>
    by (simp add: buildSampleDataQuery_random suffix_def)
next
  assume "Parameters request ''random'' = Some (PBool True)"
  then show \<open>GetSampleDataTool_HandleRequest useCase
          (request\<lparr>Parameters := (Parameters request)(''order_by'' := v)\<rparr>) st
        = GetSampleDataTool_HandleRequest useCase request st\<close>
    by (simp add: GetSampleDataTool_HandleRequest_def param_update_other optional_update_other
        optional_bool_def [of request] buildSampleDataQuery_random Let_def
        split: option.split sum.split prod.split)
next
  assume "ob \<noteq> []"
  then show \<open>suffix ('' ORDER BY '' @ ob @ '' LIMIT '' @ Itoa limit)
          (buildSampleDataQuery dbType tbl limit wh ob False)\<close>
    by (simp add: buildSampleDataQuery_ordered suffix_def)
qed

theorem sample_data_random_ignores_order_by_witness:
  \<open>buildSampleDataQuery ''postgres'' ''orders'' 5 [] ''created_at DESC'' True
     = ''SELECT * FROM "orders" ORDER BY RANDOM() LIMIT 5''
   \<and> buildSampleDataQuery ''postgres'' ''orders'' 5 [] ''created_at DESC'' False
     = ''SELECT * FROM "orders" ORDER BY created_at DESC LIMIT 5''
   \<and> GetSampleDataTool_HandleRequest (demo_useCase ''postgres'' 7)
        ((request_of [(''database'', PString ''shop''), (''table'', PString ''orders''),
                      (''random'', PBool True)])
           \<lparr>Parameters := (Parameters (request_of [(''database'', PString ''shop''),
                (''table'', PString ''orders''), (''random'', PBool True)]))
                (''order_by'' := Some (PString ''created_at DESC''))\<rparr>) (0, [])
     = GetSampleDataTool_HandleRequest (demo_useCase ''postgres'' 7)
        (request_of [(''database'', PString ''shop''), (''table'', PString ''orders''),
                     (''random'', PBool True)]) (0, [])\<close>
  using sample_data_random_ignores_order_by
    [of \<open>''postgres''\<close> \<open>''orders''\<close> 5 \<open>[]\<close> \<open>''created_at DESC''\<close>
        \<open>request_of [(''database'', PString ''shop''), (''table'', PString ''orders''),
                     (''random'', PBool True)]\<close>
        \<open>demo_useCase ''postgres'' 7\<close> \<open>Some (PString ''created_at DESC'')\<close> \<open>(0, [])\<close>]
  by (simp add: request_of_def buildSampleDataQuery_random buildSampleDataQuery_ordered
      ToLower_def to_lower_char_def Itoa_def nat_digits.simps digit_char_def)

end
